theory Spec2Isabelle
  imports Complex_Main
begin

section \<open>GreenPulse: synthetic readings, feature assembly and the refresh endpoint\<close>

text \<open>
  The theory embeds \<^verbatim>\<open>GREENPULSE/app.py\<close>. Conventions of the embedding:
  \<^item> Python floats are modelled as \<open>real\<close>: the formulas are the source's, the binary
    rounding of IEEE arithmetic is not represented.
  \<^item> \<^verbatim>\<open>datetime.now()\<close> is an input. A naive datetime is the count of microseconds
    since 0001-01-01 00:00:00, the least datetime; arithmetic that leaves the range of
    the library type raises \<^verbatim>\<open>OverflowError\<close>.
  \<^item> \<^verbatim>\<open>random\<close> is an input: a sequence \<open>g 0, g 1, ...\<close> of the successive values
    of \<^verbatim>\<open>random.random()\<close>, consumed through an explicit position.
    \<^verbatim>\<open>random.uniform(a, b)\<close> is \<^verbatim>\<open>a + (b - a) * random()\<close>.
  \<^item> Exceptions are values: a computation returns \<open>py_error + 'a\<close>.
\<close>

subsection \<open>Exceptions\<close>

datatype py_error =
    KeyError string
  | IndexError
  | ZeroDivisionError
  | OverflowError string
  | ArtifactError string

text \<open>\<^verbatim>\<open>str(e)\<close>. \<open>ArtifactError m\<close> stands for an exception raised inside the
  scaler or the model, with message \<open>m\<close>; \<open>OverflowError\<close> carries its message.\<close>

fun str_of_error :: "py_error \<Rightarrow> string" where
  "str_of_error (KeyError k) = [CHR 0x27] @ k @ [CHR 0x27]"
| "str_of_error IndexError = ''list index out of range''"
| "str_of_error ZeroDivisionError = ''float division by zero''"
| "str_of_error (OverflowError m) = m"
| "str_of_error (ArtifactError m) = m"

definition bind :: "py_error + 'a \<Rightarrow> ('a \<Rightarrow> py_error + 'b) \<Rightarrow> py_error + 'b" where
  "bind r f = (case r of Inl e \<Rightarrow> Inl e | Inr v \<Rightarrow> f v)"

text \<open>The elements of a list display are evaluated left to right; the first one that
  raises ends the evaluation.\<close>

fun sequence :: "(py_error + 'a) list \<Rightarrow> py_error + 'a list" where
  "sequence [] = Inr []"
| "sequence (r # rs) = bind r (\<lambda>v. bind (sequence rs) (\<lambda>vs. Inr (v # vs)))"

subsection \<open>Time, randomness, rounding\<close>

type_synonym datetime = int

text \<open>The datetimes are \<open>0 \<le> t < datetime_max\<close>: 0001-01-01 00:00:00 to
  9999-12-31 23:59:59.999999, that is 3652059 days.\<close>

definition datetime_max :: int where
  "datetime_max = 315537897600000000"

definition digit :: "int \<Rightarrow> char" where
  "digit d = ''0123456789'' ! nat d"

function show_nat :: "nat \<Rightarrow> string" where
  "show_nat n = (if n < 10 then [digit (int n)] else show_nat (n div 10) @ [digit (int (n mod 10))])"
  by pat_completeness auto
termination
  by (relation "measure id") auto

declare show_nat.simps [simp del]

definition show_int :: "int \<Rightarrow> string" where
  "show_int i = (if i < 0 then ''-'' @ show_nat (nat (- i)) else show_nat (nat i))"

text \<open>\<^verbatim>\<open>timedelta(hours=i)\<close>, as a count of microseconds. The constructor normalises
  to whole days \<open>i div 24\<close> and raises when their magnitude exceeds 999999999, with
  another message when the days do not fit a C int.\<close>

definition timedelta_hours :: "int \<Rightarrow> py_error + int" where
  "timedelta_hours i =
     (if i div 24 < - 2147483648 \<or> 2147483647 < i div 24
      then Inl (OverflowError ''Python int too large to convert to C int'')
      else if i div 24 < - 999999999 \<or> 999999999 < i div 24
      then Inl (OverflowError
                  (''days='' @ show_int (i div 24) @ ''; must have magnitude <= 999999999''))
      else Inr (i * 3600000000))"

text \<open>\<^verbatim>\<open>t - d\<close> for a datetime \<open>t\<close> and a timedelta \<open>d\<close>: the result must be a
  datetime.\<close>

definition datetime_sub :: "datetime \<Rightarrow> int \<Rightarrow> py_error + datetime" where
  "datetime_sub t d =
     (if 0 \<le> t - d \<and> t - d < datetime_max then Inr (t - d)
      else Inl (OverflowError ''date value out of range''))"

definition dt_hour :: "datetime \<Rightarrow> int" where
  "dt_hour t = (t div 3600000000) mod 24"

definition dt_minute :: "datetime \<Rightarrow> int" where
  "dt_minute t = (t div 60000000) mod 60"

text \<open>The instant at second precision, which is what
  \<^verbatim>\<open>strftime('%Y-%m-%d %H:%M:%S')\<close> renders: the microseconds are dropped.\<close>

definition whole_seconds :: "datetime \<Rightarrow> int" where
  "whole_seconds t = t div 1000000"

definition two_digits :: "int \<Rightarrow> string" where
  "two_digits n = [digit (n div 10), digit (n mod 10)]"

text \<open>\<^verbatim>\<open>strftime('%H:%M')\<close>.\<close>

definition strftime_HM :: "datetime \<Rightarrow> string" where
  "strftime_HM t = two_digits (dt_hour t) @ '':'' @ two_digits (dt_minute t)"

type_synonym rng = "nat \<Rightarrow> real"

definition uniform :: "real \<Rightarrow> real \<Rightarrow> real \<Rightarrow> real" where
  "uniform a b u = a + (b - a) * u"

text \<open>\<^verbatim>\<open>round(x, n)\<close> rounds to \<open>n\<close> decimals, a tie going to the even neighbour.\<close>

definition round_half_even :: "real \<Rightarrow> int" where
  "round_half_even x =
     (let f = \<lfloor>x\<rfloor>; d = x - of_int f
      in if d < 1 / 2 then f
         else if 1 / 2 < d then f + 1
         else if even f then f else f + 1)"

definition py_round :: "real \<Rightarrow> nat \<Rightarrow> real" where
  "py_round x n = of_int (round_half_even (x * 10 ^ n)) / 10 ^ n"

subsection \<open>The generator (\<^verbatim>\<open>generate_historical_data\<close>)\<close>

definition base_co :: real where "base_co = 2.5"
definition base_c6h6 :: real where "base_c6h6 = 8.0"
definition base_nox :: real where "base_nox = 200"
definition base_no2 :: real where "base_no2 = 110"
definition base_temp :: real where "base_temp = 22"
definition base_rh :: real where "base_rh = 50"

text \<open>Lines 39--44: the traffic pattern by hour of day.\<close>

definition traffic_factor :: "int \<Rightarrow> real" where
  "traffic_factor hr =
     (if (7 \<le> hr \<and> hr \<le> 9) \<or> (17 \<le> hr \<and> hr \<le> 19) then 1.5
      else if 22 \<le> hr \<or> hr \<le> 5 then 0.6
      else 1.0)"

text \<open>The local variables of one iteration of the loop, lines 35--58, before anything
  is rounded.\<close>

record sample =
  v_timestamp :: datetime
  v_hour :: int
  v_traffic_factor :: real
  v_noise :: real
  v_co :: real
  v_c6h6 :: real
  v_nox :: real
  v_no2 :: real
  v_temp :: real
  v_rh :: real
  v_pollutant_avg :: real
  v_score :: real

text \<open>Line 35, \<^verbatim>\<open>current_time - timedelta(hours=i)\<close>: the timedelta is built first,
  then subtracted; either step may raise.\<close>

definition hours_before :: "datetime \<Rightarrow> int \<Rightarrow> py_error + datetime" where
  "hours_before current_time i = bind (timedelta_hours i) (\<lambda>d. datetime_sub current_time d)"

text \<open>The rest of one iteration, lines 36--58, on the timestamp of line 35. \<open>u1\<close>,
  \<open>u2\<close>, \<open>u3\<close> are the three values that \<^verbatim>\<open>random.random()\<close> gives to the three calls
  of \<^verbatim>\<open>random.uniform\<close>, in the order of the calls.\<close>

definition iteration :: "datetime \<Rightarrow> real \<Rightarrow> real \<Rightarrow> real \<Rightarrow> sample" where
  "iteration timestamp u1 u2 u3 =
     (let hour = dt_hour timestamp;
          factor = traffic_factor hour;
          noise = uniform 0.85 1.15 u1;
          co = base_co * factor * noise;
          c6h6 = base_c6h6 * factor * noise;
          nox = base_nox * factor * noise;
          no2 = base_no2 * factor * noise;
          temp = base_temp + uniform (- 3) 3 u2;
          rh = base_rh + uniform (- 10) 10 u3;
          pollutant_avg = (co / 5 + c6h6 / 15 + nox / 400 + no2 / 200) / 4;
          score = max 0 (min 10 (10 * (1 - pollutant_avg)))
      in \<lparr> v_timestamp = timestamp, v_hour = hour, v_traffic_factor = factor, v_noise = noise,
           v_co = co, v_c6h6 = c6h6, v_nox = nox, v_no2 = no2, v_temp = temp, v_rh = rh,
           v_pollutant_avg = pollutant_avg, v_score = score \<rparr>)"

text \<open>The dictionary appended to \<^verbatim>\<open>data\<close>, lines 60--70. The field \<open>timestamp\<close>
  holds the instant at second precision, of which the source stores the rendering.\<close>

record reading =
  timestamp :: int
  hour :: string
  co :: real
  c6h6 :: real
  nox :: real
  no2 :: real
  temp :: real
  rh :: real
  score :: real

definition emit :: "sample \<Rightarrow> reading" where
  "emit v =
     \<lparr> timestamp = whole_seconds (v_timestamp v),
       hour = strftime_HM (v_timestamp v),
       co = py_round (v_co v) 2,
       c6h6 = py_round (v_c6h6 v) 2,
       nox = py_round (v_nox v) 2,
       no2 = py_round (v_no2 v) 2,
       temp = py_round (v_temp v) 1,
       rh = py_round (v_rh v) 1,
       score = py_round (v_score v) 2 \<rparr>"

text \<open>The loop \<^verbatim>\<open>for i in range(hours, 0, -1)\<close>: the counter runs from \<open>hours\<close> down
  to 1. The state is the list built so far and the position in the random sequence. An
  exception of line 35 ends the loop and the function.\<close>

fun gen_loop ::
  "rng \<Rightarrow> datetime \<Rightarrow> nat \<Rightarrow> reading list \<times> nat \<Rightarrow> py_error + reading list \<times> nat" where
  "gen_loop g current_time 0 st = Inr st"
| "gen_loop g current_time (Suc j) (data, k) =
     bind (hours_before current_time (int (Suc j))) (\<lambda>timestamp.
       gen_loop g current_time j
         (data @ [emit (iteration timestamp (g k) (g (k + 1)) (g (k + 2)))], k + 3))"

text \<open>\<^verbatim>\<open>range(hours, 0, -1)\<close> is empty when \<open>hours \<le> 0\<close>. The function returns the
  data and the position reached in the random sequence, or raises.\<close>

definition generate_historical_data ::
  "rng \<Rightarrow> nat \<Rightarrow> datetime \<Rightarrow> int \<Rightarrow> py_error + reading list \<times> nat" where
  "generate_historical_data g k current_time hours =
     gen_loop g current_time (nat hours) ([], k)"

subsection \<open>Feature assembly (\<^verbatim>\<open>prepare_features\<close>)\<close>

text \<open>The four arguments are dictionaries from field names to numbers. A subscript
  with a missing key raises \<^verbatim>\<open>KeyError\<close>, a division by zero raises
  \<^verbatim>\<open>ZeroDivisionError\<close>.\<close>

type_synonym pydict = "string \<rightharpoonup> real"

definition getitem :: "pydict \<Rightarrow> string \<Rightarrow> py_error + real" where
  "getitem d k = (case d k of None \<Rightarrow> Inl (KeyError k) | Some v \<Rightarrow> Inr v)"

definition truediv :: "real \<Rightarrow> real \<Rightarrow> py_error + real" where
  "truediv a b = (if b = 0 then Inl ZeroDivisionError else Inr (a / b))"

text \<open>Lines 75--100. The conditional expression tests
  \<^verbatim>\<open>current_data['nox'] > 0\<close> first and divides only when the test holds. The
  result is the array of shape \<open>(1, 16)\<close>: one row.\<close>

definition prepare_features ::
  "pydict \<Rightarrow> pydict \<Rightarrow> pydict \<Rightarrow> pydict \<Rightarrow> py_error + real list list" where
  "prepare_features current_data lag_data rolling_3h rolling_6h =
     bind (getitem current_data ''nox'') (\<lambda>tested.
     bind (if 0 < tested
           then bind (getitem current_data ''no2'') (\<lambda>a.
                bind (getitem current_data ''nox'') (\<lambda>b. truediv a b))
           else Inr 0) (\<lambda>no2_nox_ratio.
     bind (sequence
            [getitem current_data ''temp'',
             getitem current_data ''rh'',
             getitem current_data ''hour_num'',
             getitem current_data ''day_of_week'',
             getitem current_data ''month'',
             getitem lag_data ''co'',
             getitem lag_data ''c6h6'',
             getitem lag_data ''nox'',
             getitem lag_data ''no2'',
             getitem lag_data ''temp'',
             getitem lag_data ''rh'',
             getitem rolling_3h ''co'',
             getitem rolling_6h ''co'',
             getitem rolling_3h ''nox'',
             getitem rolling_6h ''nox'',
             Inr no2_nox_ratio]) (\<lambda>features.
     Inr [features])))"

subsection \<open>The endpoint (\<^verbatim>\<open>refresh_data\<close>)\<close>

text \<open>The artifacts loaded at start-up, lines 11--18: each is an object or \<open>None\<close>.
  An object has a truth value, which \<^verbatim>\<open>bool\<close> returns or raises on
  (its \<^verbatim>\<open>__bool__\<close> or \<^verbatim>\<open>__len__\<close>); \<open>None\<close> is false.
  \<^verbatim>\<open>scaler.transform\<close> and \<^verbatim>\<open>model.predict\<close> are functions that return an array
  or raise. Every call of one of them is recorded, in order.\<close>

record model_obj =
  model_bool :: "py_error + bool"
  predict :: "real list list \<Rightarrow> py_error + real list"

record scaler_obj =
  scaler_bool :: "py_error + bool"
  transform :: "real list list \<Rightarrow> py_error + real list list"

datatype call = Transform "real list list" | Predict "real list list"

text \<open>What a request reads from outside the program: the random sequence, the two
  values of \<^verbatim>\<open>datetime.now()\<close> (line 23 and line 136), the calendar functions of the
  datetime library, and the two artifacts.\<close>

record env =
  random :: rng
  now_gen :: datetime
  now_req :: datetime
  weekday :: "datetime \<Rightarrow> int"
  month :: "datetime \<Rightarrow> int"
  model :: "model_obj option"
  scaler :: "scaler_obj option"

definition np_mean :: "real list \<Rightarrow> real" where
  "np_mean xs = sum_list xs / real (length xs)"

text \<open>\<^verbatim>\<open>xs[-1]\<close> and \<^verbatim>\<open>xs[-n:]\<close>.\<close>

definition py_last :: "'a list \<Rightarrow> py_error + 'a" where
  "py_last xs = (if xs = [] then Inl IndexError else Inr (last xs))"

definition tail_slice :: "nat \<Rightarrow> 'a list \<Rightarrow> 'a list" where
  "tail_slice n xs = drop (length xs - n) xs"

text \<open>Lines 161--163: transform, predict, take element 0, clamp. The result comes with
  the calls made.\<close>

definition run_model ::
  "model_obj \<Rightarrow> scaler_obj \<Rightarrow> real list list \<Rightarrow> (py_error + real) \<times> call list" where
  "run_model m sc features =
     (case transform sc features of
        Inl err \<Rightarrow> (Inl err, [Transform features])
      | Inr features_scaled \<Rightarrow>
          (case predict m features_scaled of
             Inl err \<Rightarrow> (Inl err, [Transform features, Predict features_scaled])
           | Inr ys \<Rightarrow>
               (case ys of
                  [] \<Rightarrow> Inl IndexError
                | y # _ \<Rightarrow> Inr (max 0 (min 10 y)),
                [Transform features, Predict features_scaled])))"

text \<open>Lines 165 and 167: the same expression in both \<^verbatim>\<open>else\<close> branches.\<close>

definition jittered :: "reading \<Rightarrow> real \<Rightarrow> real" where
  "jittered current u = score current * uniform 0.9 1.1 u"

text \<open>Lines 118--167. The result is the predicted score or the exception, the calls made
  on the artifacts, and the position reached in the random sequence. Line 159,
  \<^verbatim>\<open>if model and scaler\<close>, takes the truth value of the model and, when it is true,
  the truth value of the scaler.\<close>

definition predict_score ::
  "env \<Rightarrow> nat \<Rightarrow> reading list \<Rightarrow> reading \<Rightarrow> (py_error + real) \<times> call list \<times> nat" where
  "predict_score e k historical current =
     (if 6 \<le> length historical then
        (let lag_data = historical ! (length historical - 2);
             last_3h = tail_slice 3 historical;
             last_6h = tail_slice 6 historical;
             rolling_3h = [''co'' \<mapsto> np_mean (map co last_3h),
                           ''nox'' \<mapsto> np_mean (map nox last_3h)];
             rolling_6h = [''co'' \<mapsto> np_mean (map co last_6h),
                           ''nox'' \<mapsto> np_mean (map nox last_6h)];
             now = now_req e;
             current_data = [''co'' \<mapsto> co current,
                             ''c6h6'' \<mapsto> c6h6 current,
                             ''nox'' \<mapsto> nox current,
                             ''no2'' \<mapsto> no2 current,
                             ''temp'' \<mapsto> temp current,
                             ''rh'' \<mapsto> rh current,
                             ''hour_num'' \<mapsto> of_int (dt_hour now),
                             ''day_of_week'' \<mapsto> of_int (weekday e now),
                             ''month'' \<mapsto> of_int (month e now)];
             lag_data_dict = [''co'' \<mapsto> co lag_data,
                              ''c6h6'' \<mapsto> c6h6 lag_data,
                              ''nox'' \<mapsto> nox lag_data,
                              ''no2'' \<mapsto> no2 lag_data,
                              ''temp'' \<mapsto> temp lag_data,
                              ''rh'' \<mapsto> rh lag_data]
         in case model e of
              None \<Rightarrow> (Inr (jittered current (random e k)), [], k + 1)
            | Some m \<Rightarrow>
                (case model_bool m of
                   Inl err \<Rightarrow> (Inl err, [], k)
                 | Inr model_true \<Rightarrow>
                     if \<not> model_true then (Inr (jittered current (random e k)), [], k + 1)
                     else
                       (case scaler e of
                          None \<Rightarrow> (Inr (jittered current (random e k)), [], k + 1)
                        | Some sc \<Rightarrow>
                            (case scaler_bool sc of
                               Inl err \<Rightarrow> (Inl err, [], k)
                             | Inr scaler_true \<Rightarrow>
                                 if \<not> scaler_true
                                 then (Inr (jittered current (random e k)), [], k + 1)
                                 else
                                   (case prepare_features current_data lag_data_dict
                                           rolling_3h rolling_6h of
                                      Inl err \<Rightarrow> (Inl err, [], k)
                                    | Inr features \<Rightarrow>
                                        (fst (run_model m sc features),
                                         snd (run_model m sc features), k))))))
      else (Inr (jittered current (random e k)), [], k + 1))"

text \<open>Lines 171--179, on the current score, and lines 181--189, on the predicted
  score.\<close>

definition status_color :: "real \<Rightarrow> string \<times> string" where
  "status_color current_score =
     (if 6.5 \<le> current_score then (''Safe'', ''green'')
      else if 4.0 \<le> current_score then (''Moderate'', ''yellow'')
      else (''High Emissions'', ''red''))"

definition pred_status_color :: "real \<Rightarrow> string \<times> string" where
  "pred_status_color predicted_score =
     (if 6.5 \<le> predicted_score then (''Safe'', ''green'')
      else if 4.0 \<le> predicted_score then (''Moderate'', ''yellow'')
      else (''High Emissions'', ''red''))"

text \<open>The JSON bodies, lines 191--215 and 219--222.\<close>

record current_json =
  cur_score :: real
  cur_status :: string
  cur_color :: string
  cur_timestamp :: int
  cur_co :: real
  cur_nox :: real
  cur_no2 :: real
  cur_temp :: real
  cur_rh :: real

record prediction_json =
  pred_score :: real
  pred_status :: string
  pred_color :: string

record point_json =
  pt_time :: string
  pt_score :: real

record payload =
  current :: current_json
  prediction :: prediction_json
  historical :: "point_json list"

datatype body = Success payload | Failure string

definition success_payload :: "reading list \<Rightarrow> reading \<Rightarrow> real \<Rightarrow> payload" where
  "success_payload hist cur predicted_score =
     (let current_score = score cur
      in \<lparr> current =
             \<lparr> cur_score = py_round current_score 2,
               cur_status = fst (status_color current_score),
               cur_color = snd (status_color current_score),
               cur_timestamp = timestamp cur,
               cur_co = co cur,
               cur_nox = nox cur,
               cur_no2 = no2 cur,
               cur_temp = temp cur,
               cur_rh = rh cur \<rparr>,
           prediction =
             \<lparr> pred_score = py_round predicted_score 2,
               pred_status = fst (pred_status_color predicted_score),
               pred_color = snd (pred_status_color predicted_score) \<rparr>,
           historical = map (\<lambda>h. \<lparr> pt_time = hour h, pt_score = score h \<rparr>) hist \<rparr>)"

text \<open>Lines 115--215 on a given list of readings: the body of the \<^verbatim>\<open>try\<close> after the
  data is generated. The result is the payload or the exception, with the calls made on
  the artifacts.\<close>

definition score_and_report ::
  "env \<Rightarrow> nat \<Rightarrow> reading list \<Rightarrow> (py_error + payload) \<times> call list" where
  "score_and_report e k hist =
     (case py_last hist of
        Inl err \<Rightarrow> (Inl err, [])
      | Inr cur \<Rightarrow>
          (case predict_score e k hist cur of
             (Inl err, calls, _) \<Rightarrow> (Inl err, calls)
           | (Inr predicted_score, calls, _) \<Rightarrow>
               (Inr (success_payload hist cur predicted_score), calls)))"

text \<open>The body of the \<^verbatim>\<open>try\<close>, lines 111--215; \<open>k\<close> is the position in the random
  sequence when the request arrives.\<close>

definition refresh_try :: "env \<Rightarrow> nat \<Rightarrow> (py_error + payload) \<times> call list" where
  "refresh_try e k =
     (case generate_historical_data (random e) k (now_gen e) 24 of
        Inl err \<Rightarrow> (Inl err, [])
      | Inr (hist, k') \<Rightarrow> score_and_report e k' hist)"

text \<open>The handler, lines 108--222: the response body and the HTTP status.\<close>

definition refresh_data :: "env \<Rightarrow> nat \<Rightarrow> body \<times> nat" where
  "refresh_data e k =
     (case fst (refresh_try e k) of
        Inr p \<Rightarrow> (Success p, 200)
      | Inl err \<Rightarrow> (Failure (str_of_error err), 500))"

subsection \<open>The formulas of the specification\<close>

definition clamp :: "real \<Rightarrow> real \<Rightarrow> real \<Rightarrow> real" where
  "clamp x lo hi = max lo (min hi x)"

definition spec_pollutant_avg :: "real \<Rightarrow> real \<Rightarrow> real \<Rightarrow> real \<Rightarrow> real" where
  "spec_pollutant_avg c b x n = (c / 5 + b / 15 + x / 400 + n / 200) / 4"

definition spec_score :: "real \<Rightarrow> real \<Rightarrow> real \<Rightarrow> real \<Rightarrow> real" where
  "spec_score c b x n = clamp (10 * (1 - spec_pollutant_avg c b x n)) 0 10"

text \<open>The feature vector as the specification lists it (its section 4.2, steps 1--7,
  and the order of its section 6), for a sequence \<open>R\<close> of readings with latest reading
  \<open>cur\<close>.\<close>

definition spec_feature_vector :: "env \<Rightarrow> reading list \<Rightarrow> reading \<Rightarrow> real list" where
  "spec_feature_vector e R cur =
     (let lag = R ! (length R - 2);
          last3 = drop (length R - 3) R;
          last6 = drop (length R - 6) R
      in [temp cur, rh cur,
          of_int (dt_hour (now_req e)), of_int (weekday e (now_req e)),
          of_int (month e (now_req e)),
          co lag, c6h6 lag, nox lag, no2 lag, temp lag, rh lag,
          sum_list (map co last3) / real (length last3),
          sum_list (map co last6) / real (length last6),
          sum_list (map nox last3) / real (length last3),
          sum_list (map nox last6) / real (length last6),
          if 0 < nox cur then no2 cur / nox cur else 0])"

section \<open>Properties of the generator\<close>

subsection \<open>The loop in closed form\<close>

lemma bind_Inr [simp]: "bind (Inr v) f = f v"
  by (simp add: bind_def)

lemma bind_Inl [simp]: "bind (Inl e) f = Inl e"
  by (simp add: bind_def)

lemma timedelta_hours_ok:
  assumes "0 \<le> i" "i * 3600000000 < datetime_max"
  shows "timedelta_hours i = Inr (i * 3600000000)"
proof -
  have "i < 87649416" using assms(2) by (simp add: datetime_max_def)
  then have "i div 24 \<le> 3652058" using assms(1) by presburger
  moreover have "0 \<le> i div 24" using assms(1) by presburger
  ultimately show ?thesis by (simp add: timedelta_hours_def)
qed

lemma hours_before_ok:
  assumes "0 \<le> i" "i * 3600000000 \<le> c" "c < datetime_max"
  shows "hours_before c i = Inr (c - i * 3600000000)"
proof -
  have "i * 3600000000 < datetime_max" using assms by linarith
  then have "timedelta_hours i = Inr (i * 3600000000)"
    using assms(1) by (rule timedelta_hours_ok [rotated])
  moreover have "0 \<le> c - i * 3600000000 \<and> c - i * 3600000000 < datetime_max"
    using assms by (simp add: datetime_max_def)
  ultimately show ?thesis by (simp add: hours_before_def datetime_sub_def)
qed

lemma hours_before_too_early:
  assumes "c < i * 3600000000"
  shows "\<exists>msg. hours_before c i = Inl (OverflowError msg)"
  using assms by (simp add: hours_before_def timedelta_hours_def datetime_sub_def)

lemma gen_loop_raises:
  assumes "0 < n" "hours_before c (int n) = Inl err"
  shows "gen_loop g c n (data, k) = Inl err"
  using assms by (cases n) simp_all

lemma gen_loop_closed:
  assumes "int n * 3600000000 \<le> c" "c < datetime_max"
  shows "gen_loop g c n (data, k) =
     Inr (data @ map (\<lambda>j. emit (iteration (c - (int n - int j) * 3600000000)
                          (g (k + 3 * j)) (g (k + 3 * j + 1)) (g (k + 3 * j + 2)))) [0..<n],
          k + 3 * n)"
  using assms
proof (induction n arbitrary: data k)
  case 0
  then show ?case by simp
next
  case (Suc n)
  have u: "[0..<Suc n] = 0 # map Suc [0..<n]"
    by (simp add: upt_conv_Cons map_Suc_upt del: upt_Suc)
  have h: "hours_before c (int (Suc n)) = Inr (c - int (Suc n) * 3600000000)"
    using Suc.prems by (intro hours_before_ok) simp_all
  have p: "int n * 3600000000 \<le> c" using Suc.prems(1) by simp
  show ?case
    using Suc.IH [OF p Suc.prems(2)] u h
    by (simp add: o_def algebra_simps del: upt_Suc)
qed

lemma generate_closed:
  assumes "0 < hours" "hours * 3600000000 \<le> c" "c < datetime_max"
  shows "generate_historical_data g k c hours =
     Inr (map (\<lambda>j. emit (iteration (c - (hours - int j) * 3600000000)
                   (g (k + 3 * j)) (g (k + 3 * j + 1)) (g (k + 3 * j + 2)))) [0..<nat hours],
          k + 3 * nat hours)"
proof -
  have "int (nat hours) = hours" using assms(1) by simp
  then show ?thesis
    using gen_loop_closed [of "nat hours" c g "[]" k] assms
    by (simp add: generate_historical_data_def)
qed

lemma generate_raises:
  assumes "0 < hours" "c < hours * 3600000000"
  shows "\<exists>msg. generate_historical_data g k c hours = Inl (OverflowError msg)"
proof -
  have i: "int (nat hours) = hours" using assms(1) by simp
  obtain msg where "hours_before c (int (nat hours)) = Inl (OverflowError msg)"
    using hours_before_too_early [of c hours] assms(2) i by auto
  then have "gen_loop g c (nat hours) ([], k) = Inl (OverflowError msg)"
    using assms(1) by (intro gen_loop_raises) simp_all
  then show ?thesis by (auto simp add: generate_historical_data_def)
qed

subsection \<open>Rounding keeps a score in range\<close>

lemma round_half_even_ge: "\<lfloor>x\<rfloor> \<le> round_half_even x"
  by (simp add: round_half_even_def Let_def)

lemma round_half_even_le: "round_half_even x \<le> \<lceil>x\<rceil>"
  unfolding round_half_even_def Let_def by (auto; linarith)

lemma py_round_range:
  assumes "0 \<le> x" "x \<le> 10"
  shows "0 \<le> py_round x 2" "py_round x 2 \<le> 10"
proof -
  have "0 \<le> \<lfloor>x * 100\<rfloor>" using assms by simp
  then have "0 \<le> round_half_even (x * 100)"
    using round_half_even_ge [of "x * 100"] by linarith
  then show "0 \<le> py_round x 2" by (simp add: py_round_def)
  have "\<lceil>x * 100\<rceil> \<le> 1000" using assms by (simp add: ceiling_le_iff)
  then have "round_half_even (x * 100) \<le> 1000"
    using round_half_even_le [of "x * 100"] by linarith
  then have "(of_int (round_half_even (x * 100)) :: real) \<le> 1000" by linarith
  then show "py_round x 2 \<le> 10" by (simp add: py_round_def)
qed

subsection \<open>One iteration\<close>

lemma iteration_factor:
  "v_traffic_factor (iteration ts u1 u2 u3) = traffic_factor (dt_hour ts)"
  by (simp add: iteration_def Let_def)

lemma iteration_noise: "v_noise (iteration ts u1 u2 u3) = uniform 0.85 1.15 u1"
  by (simp add: iteration_def Let_def)

lemma iteration_score_range:
  "0 \<le> v_score (iteration ts u1 u2 u3)" "v_score (iteration ts u1 u2 u3) \<le> 10"
  by (simp_all add: iteration_def Let_def)

lemma iteration_score_clamped:
  "v_score (iteration ts u1 u2 u3) =
     max 0 (min 10 (10 * (1 - v_pollutant_avg (iteration ts u1 u2 u3))))"
  by (simp only: iteration_def Let_def sample.select_convs)

lemma traffic_factor_cases:
  "traffic_factor h = 1.5 \<or> traffic_factor h = 0.6 \<or> traffic_factor h = 1"
  by (simp add: traffic_factor_def)

lemma uniform_range:
  assumes "0 \<le> u" "u \<le> 1" "a \<le> b"
  shows "a \<le> uniform a b u \<and> uniform a b u \<le> b"
proof -
  have "0 \<le> (b - a) * u" using assms by simp
  moreover have "(b - a) * u \<le> (b - a) * 1"
    using assms by (intro mult_left_mono) auto
  ultimately show ?thesis by (simp add: uniform_def)
qed

lemma raw_score_eq:
  "10 * (1 - v_pollutant_avg (iteration ts u1 u2 u3)) =
     10 - (125 / 24) * (v_traffic_factor (iteration ts u1 u2 u3) * v_noise (iteration ts u1 u2 u3))"
  by (simp add: iteration_def Let_def base_co_def base_c6h6_def base_nox_def base_no2_def field_simps)

lemma raw_band:
  fixes t n :: real
  assumes "t = 1.5 \<or> t = 0.6 \<or> t = 1" "0.85 \<le> n \<and> n \<le> 1.15"
  shows "65 / 64 \<le> 10 - (125 / 24) * (t * n) \<and> 10 - (125 / 24) * (t * n) \<le> 235 / 32"
proof -
  have a: "65 / 64 \<le> 10 - (125 / 24) * (1.5 * n) \<and> 10 - (125 / 24) * (1.5 * n) \<le> 235 / 32"
    using assms(2) by simp
  have b: "65 / 64 \<le> 10 - (125 / 24) * (0.6 * n) \<and> 10 - (125 / 24) * (0.6 * n) \<le> 235 / 32"
    using assms(2) by simp
  have c: "65 / 64 \<le> 10 - (125 / 24) * (1 * n) \<and> 10 - (125 / 24) * (1 * n) \<le> 235 / 32"
    using assms(2) by simp
  from assms(1) show ?thesis
  proof (elim disjE)
    assume "t = 1.5" then show ?thesis using a by (simp only:)
  next
    assume "t = 0.6" then show ?thesis using b by (simp only:)
  next
    assume "t = 1" then show ?thesis using c by (simp only:)
  qed
qed

lemma hour_8: "dt_hour (8 * 3600000000) = 8"
  by (simp add: dt_hour_def)

subsection \<open>The emission score\<close>

text \<open>
  Claim C2. In every iteration of the generator, whatever the three random values are,
  the score computed at line 58 is \<open>clamp(10 * (1 - pollutant_avg), 0, 10)\<close>, where
  \<open>pollutant_avg = (co/5 + c6h6/15 + nox/400 + no2/200) / 4\<close> is taken on the pollutant
  values before they are rounded. It lies in \<open>[0, 10]\<close>, and so does the value stored
  in the reading, which is the score rounded to two decimals. The score is a function
  of the four pollutant values alone: it does not change with the random values behind
  \<open>temp\<close> and \<open>rh\<close>.
\<close>

theorem emission_score_formula:
  "v_score (iteration ts u1 u2 u3) =
     spec_score (v_co (iteration ts u1 u2 u3)) (v_c6h6 (iteration ts u1 u2 u3))
       (v_nox (iteration ts u1 u2 u3)) (v_no2 (iteration ts u1 u2 u3))
   \<and> 0 \<le> v_score (iteration ts u1 u2 u3) \<and> v_score (iteration ts u1 u2 u3) \<le> 10
   \<and> score (emit (iteration ts u1 u2 u3)) = py_round (v_score (iteration ts u1 u2 u3)) 2
   \<and> 0 \<le> score (emit (iteration ts u1 u2 u3)) \<and> score (emit (iteration ts u1 u2 u3)) \<le> 10
   \<and> v_score (iteration ts u1 u2' u3') = v_score (iteration ts u1 u2 u3)"
proof -
  let ?v = "iteration ts u1 u2 u3"
  have a: "v_score ?v = spec_score (v_co ?v) (v_c6h6 ?v) (v_nox ?v) (v_no2 ?v)"
    by (simp only: iteration_def Let_def spec_score_def spec_pollutant_avg_def clamp_def
          sample.select_convs)
  have b: "score (emit ?v) = py_round (v_score ?v) 2"
    by (simp add: emit_def)
  have c: "v_score (iteration ts u1 u2' u3') = v_score ?v"
    by (simp add: iteration_def Let_def)
  show ?thesis
    using a b c iteration_score_range [of ts u1 u2 u3]
      py_round_range [OF iteration_score_range, of ts u1 u2 u3]
    by simp
qed

text \<open>
  Claim C10. When the noise value comes from a draw in \<open>[0, 1]\<close>, that is when the noise
  lies in \<open>[0.85, 1.15]\<close>, the unclamped score \<open>10 * (1 - pollutant_avg)\<close> lies between
  \<open>65/64\<close> (about 1.02, reached at traffic factor 1.5 and noise 1.15) and \<open>235/32\<close>
  (about 7.34, reached at traffic factor 0.6 and noise 0.85), whatever the hour. It is
  strictly between 0 and 10, and the score equals it: neither bound of the clamp is
  active.
\<close>

theorem clamp_never_active:
  assumes "0 \<le> u1" "u1 \<le> 1"
  shows "65 / 64 \<le> 10 * (1 - v_pollutant_avg (iteration ts u1 u2 u3))
       \<and> 10 * (1 - v_pollutant_avg (iteration ts u1 u2 u3)) \<le> 235 / 32
       \<and> 0 < 10 * (1 - v_pollutant_avg (iteration ts u1 u2 u3))
       \<and> 10 * (1 - v_pollutant_avg (iteration ts u1 u2 u3)) < 10
       \<and> v_score (iteration ts u1 u2 u3) = 10 * (1 - v_pollutant_avg (iteration ts u1 u2 u3))
       \<and> (v_traffic_factor (iteration ts u1 u2 u3) = 1.5 \<and> v_noise (iteration ts u1 u2 u3) = 1.15
            \<longrightarrow> 10 * (1 - v_pollutant_avg (iteration ts u1 u2 u3)) = 65 / 64)
       \<and> (v_traffic_factor (iteration ts u1 u2 u3) = 0.6 \<and> v_noise (iteration ts u1 u2 u3) = 0.85
            \<longrightarrow> 10 * (1 - v_pollutant_avg (iteration ts u1 u2 u3)) = 235 / 32)"
proof -
  let ?v = "iteration ts u1 u2 u3"
  have n: "0.85 \<le> v_noise ?v \<and> v_noise ?v \<le> 1.15"
    using uniform_range [OF assms, of "0.85" "1.15"] by (simp add: iteration_noise)
  have t: "v_traffic_factor ?v = 1.5 \<or> v_traffic_factor ?v = 0.6 \<or> v_traffic_factor ?v = 1"
    using traffic_factor_cases by (simp add: iteration_factor)
  have r: "65 / 64 \<le> 10 * (1 - v_pollutant_avg ?v) \<and> 10 * (1 - v_pollutant_avg ?v) \<le> 235 / 32"
    unfolding raw_score_eq using raw_band [OF t n] .
  have lo: "v_traffic_factor ?v = 1.5 \<and> v_noise ?v = 1.15
              \<longrightarrow> 10 * (1 - v_pollutant_avg ?v) = 65 / 64"
  proof (intro impI, elim conjE)
    assume a: "v_traffic_factor ?v = 1.5" and b: "v_noise ?v = 1.15"
    show "10 * (1 - v_pollutant_avg ?v) = 65 / 64"
      unfolding raw_score_eq a b by simp
  qed
  have hi: "v_traffic_factor ?v = 0.6 \<and> v_noise ?v = 0.85
              \<longrightarrow> 10 * (1 - v_pollutant_avg ?v) = 235 / 32"
  proof (intro impI, elim conjE)
    assume a: "v_traffic_factor ?v = 0.6" and b: "v_noise ?v = 0.85"
    show "10 * (1 - v_pollutant_avg ?v) = 235 / 32"
      unfolding raw_score_eq a b by simp
  qed
  have s: "v_score ?v = 10 * (1 - v_pollutant_avg ?v)"
    using r by (simp add: iteration_score_clamped)
  have p: "0 < 10 * (1 - v_pollutant_avg ?v) \<and> 10 * (1 - v_pollutant_avg ?v) < 10"
    using r by linarith
  show ?thesis using r s p lo hi by blast
qed

theorem clamp_never_active_witness:
  "(0::real) \<le> 1 \<and> (1::real) \<le> 1
   \<and> v_traffic_factor (iteration (8 * 3600000000) 1 0 0) = 1.5
   \<and> v_noise (iteration (8 * 3600000000) 1 0 0) = 1.15
   \<and> v_score (iteration (8 * 3600000000) 1 0 0) = 65 / 64"
proof -
  have t: "v_traffic_factor (iteration (8 * 3600000000) 1 0 0) = 1.5"
    unfolding iteration_factor hour_8 by (simp add: traffic_factor_def)
  have n: "v_noise (iteration (8 * 3600000000) 1 0 0) = 1.15"
    unfolding iteration_noise by (simp add: uniform_def)
  show ?thesis
    using clamp_never_active [of 1 "8 * 3600000000" 0 0] t n by simp
qed

subsection \<open>The traffic factor\<close>

lemma dt_hour_range: "0 \<le> dt_hour t \<and> dt_hour t \<le> 23"
  by (simp add: dt_hour_def)

text \<open>
  Claim C6. The traffic factor of an iteration is \<open>traffic_factor\<close> of the hour of day of
  its timestamp, an hour in \<open>0..23\<close>. For every hour \<open>h\<close> it is 1.5 when \<open>h\<close> is in
  \<open>[7, 9]\<close> or \<open>[17, 19]\<close>, 0.6 when \<open>h \<ge> 22\<close> or \<open>h \<le> 5\<close>, and 1.0 otherwise. At the edges: hour 9 gives 1.5, hour 10 gives 1.0, hour 22 gives
  0.6, hour 5 gives 0.6 and hour 6 gives 1.0.
\<close>

theorem traffic_factor_by_hour:
  "(h \<in> {7..9} \<union> {17..19} \<longrightarrow> traffic_factor h = 1.5)
   \<and> (22 \<le> h \<or> h \<le> 5 \<longrightarrow> traffic_factor h = 0.6)
   \<and> (h \<notin> {7..9} \<union> {17..19} \<and> \<not> (22 \<le> h \<or> h \<le> 5) \<longrightarrow> traffic_factor h = 1)
   \<and> traffic_factor 9 = 1.5 \<and> traffic_factor 10 = 1 \<and> traffic_factor 22 = 0.6
   \<and> traffic_factor 5 = 0.6 \<and> traffic_factor 6 = 1
   \<and> v_hour (iteration ts u1 u2 u3) = dt_hour ts
   \<and> 0 \<le> v_hour (iteration ts u1 u2 u3) \<and> v_hour (iteration ts u1 u2 u3) \<le> 23
   \<and> v_traffic_factor (iteration ts u1 u2 u3) = traffic_factor (v_hour (iteration ts u1 u2 u3))"
proof -
  have a: "h \<in> {7..9} \<union> {17..19} \<longrightarrow> traffic_factor h = 1.5"
    by (simp add: traffic_factor_def)
  have b: "22 \<le> h \<or> h \<le> 5 \<longrightarrow> traffic_factor h = 0.6"
    by (auto simp add: traffic_factor_def)
  have c: "h \<notin> {7..9} \<union> {17..19} \<and> \<not> (22 \<le> h \<or> h \<le> 5) \<longrightarrow> traffic_factor h = 1"
    by (auto simp add: traffic_factor_def)
  have d: "traffic_factor 9 = 1.5 \<and> traffic_factor 10 = 1 \<and> traffic_factor 22 = 0.6
     \<and> traffic_factor 5 = 0.6 \<and> traffic_factor 6 = 1"
    by (simp add: traffic_factor_def)
  have e: "v_hour (iteration ts u1 u2 u3) = dt_hour ts"
    by (simp add: iteration_def Let_def)
  have f: "v_traffic_factor (iteration ts u1 u2 u3) = traffic_factor (v_hour (iteration ts u1 u2 u3))"
    by (simp add: iteration_def Let_def)
  show ?thesis
    using a b c d e f dt_hour_range [of ts] by simp
qed

theorem traffic_factor_by_hour_witness:
  "(9::int) \<in> {7..9} \<union> {17..19} \<and> traffic_factor 9 = 1.5
   \<and> (22::int) \<le> 23 \<and> traffic_factor 23 = 0.6
   \<and> (12::int) \<notin> {7..9} \<union> {17..19} \<and> \<not> (22 \<le> (12::int) \<or> (12::int) \<le> 5)
   \<and> traffic_factor 12 = 1"
  using traffic_factor_by_hour [of 9 0 0 0 0] traffic_factor_by_hour [of 23 0 0 0 0]
    traffic_factor_by_hour [of 12 0 0 0 0]
  by simp

subsection \<open>Length and timestamps of the series\<close>

lemma whole_seconds_shift:
  "whole_seconds (c - i * 3600000000) = whole_seconds c - 3600 * i"
proof -
  have "c - i * 3600000000 = c + (- (3600 * i)) * 1000000" by simp
  then show ?thesis
    unfolding whole_seconds_def
    by (simp only: div_mult_self1 [of "1000000::int"])
qed

lemma emit_timestamp:
  "timestamp (emit (iteration ts u1 u2 u3)) = whole_seconds ts"
  by (simp add: emit_def iteration_def Let_def)


lemma generate_nth:
  assumes "hours * 3600000000 \<le> c" "c < datetime_max" "j < nat hours"
  shows "\<exists>data k'. generate_historical_data g k c hours = Inr (data, k')
     \<and> length data = nat hours
     \<and> data ! j = emit (iteration (c - (hours - int j) * 3600000000)
                      (g (k + 3 * j)) (g (k + 3 * j + 1)) (g (k + 3 * j + 2)))"
proof -
  have "0 < hours" using assms(3) by simp
  then show ?thesis
    using generate_closed [OF _ assms(1,2), of g k] assms(3) by simp
qed

text \<open>
  Claim C3, as amended. The claim holds for the positive \<open>hours\<close> for which
  \<open>now - hours\<close> hours is still a datetime, that is not before 0001-01-01 00:00:00:
  then \<open>generate_historical_data\<close> returns exactly \<open>hours\<close> readings, reading \<open>j\<close>
  (from 0, oldest first) carries the timestamp of \<open>now - (hours - j)\<close> hours, so the
  timestamps increase strictly, consecutive ones are exactly 3600 seconds apart, the first
  is that of \<open>now - hours\<close> hours, the last is that of \<open>now - 1\<close> hour, and the current
  instant itself is not among them. For a larger \<open>hours\<close>, line 35 raises
  \<open>OverflowError\<close> in the first iteration and nothing is returned.
\<close>

theorem generate_hourly_series_in_range:
  "(0 < hours \<and> hours * 3600000000 \<le> c \<and> c < datetime_max \<longrightarrow>
      (\<exists>data k'. generate_historical_data g k c hours = Inr (data, k')
         \<and> length data = nat hours
         \<and> (\<forall>j < nat hours. timestamp (data ! j) =
                whole_seconds (c - (hours - int j) * 3600000000))
         \<and> (\<forall>j. Suc j < nat hours \<longrightarrow> timestamp (data ! Suc j) = timestamp (data ! j) + 3600)
         \<and> sorted_wrt (<) (map timestamp data)
         \<and> timestamp (hd data) = whole_seconds (c - hours * 3600000000)
         \<and> timestamp (last data) = whole_seconds (c - 1 * 3600000000)
         \<and> timestamp (last data) < whole_seconds c))
   \<and> (0 < hours \<and> c < hours * 3600000000 \<longrightarrow>
        (\<exists>msg. generate_historical_data g k c hours = Inl (OverflowError msg)))"
proof -
  have ok: "\<exists>data k'. generate_historical_data g k c hours = Inr (data, k')
         \<and> length data = nat hours
         \<and> (\<forall>j < nat hours. timestamp (data ! j) =
                whole_seconds (c - (hours - int j) * 3600000000))
         \<and> (\<forall>j. Suc j < nat hours \<longrightarrow> timestamp (data ! Suc j) = timestamp (data ! j) + 3600)
         \<and> sorted_wrt (<) (map timestamp data)
         \<and> timestamp (hd data) = whole_seconds (c - hours * 3600000000)
         \<and> timestamp (last data) = whole_seconds (c - 1 * 3600000000)
         \<and> timestamp (last data) < whole_seconds c"
    if pos: "0 < hours" and lo: "hours * 3600000000 \<le> c" and hi: "c < datetime_max"
  proof -
    define d where "d = map (\<lambda>j. emit (iteration (c - (hours - int j) * 3600000000)
                   (g (k + 3 * j)) (g (k + 3 * j + 1)) (g (k + 3 * j + 2)))) [0..<nat hours]"
    have gen: "generate_historical_data g k c hours = Inr (d, k + 3 * nat hours)"
      unfolding d_def by (rule generate_closed [OF pos lo hi])
    have len: "length d = nat hours" by (simp add: d_def)
    have ne: "d \<noteq> []" using pos len by auto
    have a: "\<forall>j < nat hours. timestamp (d ! j) = whole_seconds (c - (hours - int j) * 3600000000)"
      by (simp add: d_def emit_timestamp)
    have ts: "\<forall>j < nat hours. timestamp (d ! j) = whole_seconds c - 3600 * (hours - int j)"
      using a by (simp only: whole_seconds_shift)
    have b: "\<forall>j. Suc j < nat hours \<longrightarrow> timestamp (d ! Suc j) = timestamp (d ! j) + 3600"
      using ts by auto
    have s: "sorted_wrt (<) (map timestamp d)"
      unfolding sorted_wrt_iff_nth_less using ts len by auto
    have h: "timestamp (hd d) = whole_seconds (c - hours * 3600000000)"
      using ne a pos by (simp add: hd_conv_nth)
    have l: "timestamp (last d) = whole_seconds c - 3600"
      using ne ts len pos by (simp add: last_conv_nth)
    have l1: "timestamp (last d) = whole_seconds (c - 1 * 3600000000)"
      using l whole_seconds_shift [of c 1] by simp
    have l2: "timestamp (last d) < whole_seconds c" using l by simp
    show ?thesis using gen len a b s h l1 l2 by blast
  qed
  have bad: "\<exists>msg. generate_historical_data g k c hours = Inl (OverflowError msg)"
    if "0 < hours" "c < hours * 3600000000"
    using that by (rule generate_raises)
  show ?thesis using ok bad by blast
qed

theorem generate_hourly_series_in_range_witness:
  "(0::int) < 2 \<and> (2::int) * 3600000000 \<le> 10 * 3600000000 \<and> (10::int) * 3600000000 < datetime_max
   \<and> (\<exists>data k'. generate_historical_data (\<lambda>_. 0) 0 (10 * 3600000000) 2 = Inr (data, k')
         \<and> length data = 2
         \<and> timestamp (hd data) = 28800
         \<and> timestamp (last data) = 32400)
   \<and> (0::int) < 11 \<and> (10::int) * 3600000000 < 11 * 3600000000
   \<and> (\<exists>msg. generate_historical_data (\<lambda>_. 0) 0 (10 * 3600000000) 11 = Inl (OverflowError msg))"
proof -
  have a: "\<exists>data k'. generate_historical_data (\<lambda>_. 0) 0 (10 * 3600000000) 2 = Inr (data, k')
         \<and> length data = 2
         \<and> timestamp (hd data) = 28800
         \<and> timestamp (last data) = 32400"
    using generate_hourly_series_in_range [of 2 "10 * 3600000000" "\<lambda>_. 0" 0]
    by (auto simp add: whole_seconds_def datetime_max_def)
  have b: "\<exists>msg. generate_historical_data (\<lambda>_. 0) 0 (10 * 3600000000) 11 = Inl (OverflowError msg)"
    using generate_hourly_series_in_range [of 11 "10 * 3600000000" "\<lambda>_. 0" 0]
    by simp
  show ?thesis using a b by (simp add: datetime_max_def)
qed

text \<open>
  The claim as stated, for every positive \<open>hours\<close>, fails: at 2026-11-04 12:00:00, which
  is 17758164 hours after 0001-01-01 00:00:00, a call with \<open>hours = 17758165\<close> raises and
  returns no reading.
\<close>

theorem generate_every_hours_counterexample:
  "(0::int) < 17758165
   \<and> (0::int) \<le> 17758164 * 3600000000 \<and> (17758164::int) * 3600000000 < datetime_max
   \<and> generate_historical_data (\<lambda>_. 0) 0 (17758164 * 3600000000) 17758165 =
        Inl (OverflowError ''date value out of range'')"
proof -
  have h: "hours_before (17758164 * 3600000000) (int (nat 17758165)) =
      Inl (OverflowError ''date value out of range'')"
    by (simp add: hours_before_def timedelta_hours_def datetime_sub_def)
  have "gen_loop (\<lambda>_. 0) (17758164 * 3600000000) (nat 17758165) ([], 0) =
      Inl (OverflowError ''date value out of range'')"
    using h by (intro gen_loop_raises) simp_all
  then show ?thesis
    by (simp add: generate_historical_data_def datetime_max_def)
qed

subsection \<open>The noise sample\<close>

lemma iteration_pollutants:
  "v_co (iteration ts u1 u2 u3) / 2.5 = v_traffic_factor (iteration ts u1 u2 u3) * v_noise (iteration ts u1 u2 u3)"
  "v_c6h6 (iteration ts u1 u2 u3) / 8.0 = v_traffic_factor (iteration ts u1 u2 u3) * v_noise (iteration ts u1 u2 u3)"
  "v_nox (iteration ts u1 u2 u3) / 200 = v_traffic_factor (iteration ts u1 u2 u3) * v_noise (iteration ts u1 u2 u3)"
  "v_no2 (iteration ts u1 u2 u3) / 110 = v_traffic_factor (iteration ts u1 u2 u3) * v_noise (iteration ts u1 u2 u3)"
  by (simp_all add: iteration_def Let_def base_co_def base_c6h6_def base_nox_def base_no2_def)

lemma iteration_temp_rh:
  "v_temp (iteration ts u1 u2 u3) = 22 + uniform (- 3) 3 u2"
  "v_rh (iteration ts u1 u2 u3) = 50 + uniform (- 10) 10 u3"
  by (simp_all add: iteration_def Let_def base_temp_def base_rh_def)

text \<open>
  Claim C7. In one iteration a single draw gives the noise, \<open>uniform(0.85, 1.15)\<close>, which
  lies in \<open>[0.85, 1.15]\<close> when the underlying value lies in \<open>[0, 1]\<close>, and that one noise
  multiplies all four bases: before rounding, \<open>co/2.5 = c6h6/8.0 = nox/200 = no2/110\<close>,
  the common value being traffic factor times noise. \<open>temp\<close> and \<open>rh\<close> come from two
  further draws, \<open>22 + uniform(-3, 3)\<close> and \<open>50 + uniform(-10, 10)\<close>. In the generated
  series, reading \<open>j\<close> takes its three draws at positions \<open>k + 3j\<close>, \<open>k + 3j + 1\<close> and
  \<open>k + 3j + 2\<close> of the random sequence, so no draw is used twice.
\<close>

theorem shared_noise_sample:
  "v_co (iteration ts u1 u2 u3) / 2.5 = v_c6h6 (iteration ts u1 u2 u3) / 8.0
   \<and> v_c6h6 (iteration ts u1 u2 u3) / 8.0 = v_nox (iteration ts u1 u2 u3) / 200
   \<and> v_nox (iteration ts u1 u2 u3) / 200 = v_no2 (iteration ts u1 u2 u3) / 110
   \<and> v_no2 (iteration ts u1 u2 u3) / 110 =
        v_traffic_factor (iteration ts u1 u2 u3) * v_noise (iteration ts u1 u2 u3)
   \<and> v_noise (iteration ts u1 u2 u3) = uniform 0.85 1.15 u1
   \<and> (0 \<le> u1 \<and> u1 \<le> 1 \<longrightarrow>
        0.85 \<le> v_noise (iteration ts u1 u2 u3) \<and> v_noise (iteration ts u1 u2 u3) \<le> 1.15)
   \<and> v_temp (iteration ts u1 u2 u3) = 22 + uniform (- 3) 3 u2
   \<and> v_rh (iteration ts u1 u2 u3) = 50 + uniform (- 10) 10 u3
   \<and> (hours * 3600000000 \<le> c \<and> c < datetime_max \<and> j < nat hours \<longrightarrow>
        (\<exists>data k'. generate_historical_data g k c hours = Inr (data, k')
           \<and> length data = nat hours
           \<and> data ! j = emit (iteration (c - (hours - int j) * 3600000000)
                            (g (k + 3 * j)) (g (k + 3 * j + 1)) (g (k + 3 * j + 2)))))"
proof -
  let ?v = "iteration ts u1 u2 u3"
  have n: "0 \<le> u1 \<and> u1 \<le> 1 \<longrightarrow> 0.85 \<le> v_noise ?v \<and> v_noise ?v \<le> 1.15"
    using uniform_range [of u1 "0.85" "1.15"] by (simp add: iteration_noise)
  have g: "hours * 3600000000 \<le> c \<and> c < datetime_max \<and> j < nat hours \<longrightarrow>
        (\<exists>data k'. generate_historical_data g k c hours = Inr (data, k')
           \<and> length data = nat hours
           \<and> data ! j = emit (iteration (c - (hours - int j) * 3600000000)
                            (g (k + 3 * j)) (g (k + 3 * j + 1)) (g (k + 3 * j + 2))))"
    using generate_nth [of hours c j g k] by blast
  show ?thesis
    using n g iteration_pollutants [of ts u1 u2 u3] iteration_temp_rh [of ts u1 u2 u3]
      iteration_noise [of ts u1 u2 u3]
    by (simp only:)
qed

theorem shared_noise_sample_witness:
  "(0::real) \<le> 1 / 2 \<and> (1::real) / 2 \<le> 1
   \<and> v_noise (iteration 0 (1 / 2) 0 1) = 1
   \<and> v_temp (iteration 0 (1 / 2) 0 1) = 19
   \<and> v_rh (iteration 0 (1 / 2) 0 1) = 60
   \<and> (1::int) * 3600000000 \<le> 3600000000 \<and> (3600000000::int) < datetime_max \<and> (0::nat) < nat 1
   \<and> (\<exists>data k'. generate_historical_data
          (\<lambda>n. if n = 0 then 1 / 2 else if n = 1 then 0 else 1) 0 3600000000 1 = Inr (data, k')
        \<and> length data = 1
        \<and> data ! 0 = emit (iteration 0 (1 / 2) 0 1))"
  using shared_noise_sample [of 0 "1 / 2" 0 1 1 3600000000 0
      "\<lambda>n. if n = 0 then 1 / 2 else if n = 1 then 0 else 1" 0]
  by (simp add: uniform_def datetime_max_def)

section \<open>Properties of the feature assembly\<close>

lemma bind_eq_Inl: "bind r f = Inl e \<Longrightarrow> r = Inl e \<or> (\<exists>v. r = Inr v \<and> f v = Inl e)"
  by (cases r) auto

lemma bind_eq_Inr: "bind r f = Inr w \<Longrightarrow> \<exists>v. r = Inr v \<and> f v = Inr w"
  by (cases r) auto

lemma sequence_error: "sequence rs = Inl e \<Longrightarrow> Inl e \<in> set rs"
proof (induction rs)
  case Nil
  then show ?case by simp
next
  case (Cons r rs)
  show ?case
  proof (cases r)
    case (Inl a)
    then show ?thesis using Cons.prems by simp
  next
    case (Inr v)
    then have "bind (sequence rs) (\<lambda>vs. Inr (v # vs)) = Inl e" using Cons.prems by simp
    then have "sequence rs = Inl e" by (cases "sequence rs") auto
    then show ?thesis using Cons.IH by simp
  qed
qed

lemma sequence_values: "sequence rs = Inr vs \<Longrightarrow> rs = map Inr vs"
proof (induction rs arbitrary: vs)
  case Nil
  then show ?case by simp
next
  case (Cons r rs)
  from Cons.prems obtain v where r: "r = Inr v"
    and b: "bind (sequence rs) (\<lambda>ws. Inr (v # ws)) = Inr vs"
    by (cases r) auto
  from b obtain ws where w: "sequence rs = Inr ws" and v: "vs = v # ws"
    by (cases "sequence rs") auto
  show ?case using Cons.IH [OF w] r v by simp
qed

lemma getitem_Some [simp]: "d k = Some v \<Longrightarrow> getitem d k = Inr v"
  by (simp add: getitem_def)

lemma getitem_not_zero_division: "getitem d k \<noteq> Inl ZeroDivisionError"
  by (simp add: getitem_def split: option.splits)

lemma getitem_Inr: "getitem d k = Inr v \<Longrightarrow> d k = Some v"
  by (simp add: getitem_def split: option.splits)

text \<open>
  Claim C1. When the four dictionaries hold the fields the function reads, whatever
  their values, \<open>prepare_features\<close> returns one row of exactly 16 entries, in the order
  temp, rh, hour_num, day_of_week, month of the current reading, then co, c6h6, nox, no2,
  temp, rh of the lag reading, then the 3-hour mean of co, the 6-hour mean of co, the
  3-hour mean of nox, the 6-hour mean of nox, and last the NO2/NOx ratio.
\<close>

theorem prepare_features_vector:
  assumes "current_data ''temp'' = Some c_temp" "current_data ''rh'' = Some c_rh"
    "current_data ''hour_num'' = Some c_hour" "current_data ''day_of_week'' = Some c_day"
    "current_data ''month'' = Some c_month"
    "current_data ''nox'' = Some c_nox" "current_data ''no2'' = Some c_no2"
    "lag_data ''co'' = Some l_co" "lag_data ''c6h6'' = Some l_c6h6"
    "lag_data ''nox'' = Some l_nox" "lag_data ''no2'' = Some l_no2"
    "lag_data ''temp'' = Some l_temp" "lag_data ''rh'' = Some l_rh"
    "rolling_3h ''co'' = Some r3_co" "rolling_3h ''nox'' = Some r3_nox"
    "rolling_6h ''co'' = Some r6_co" "rolling_6h ''nox'' = Some r6_nox"
  shows "prepare_features current_data lag_data rolling_3h rolling_6h =
      Inr [[c_temp, c_rh, c_hour, c_day, c_month,
            l_co, l_c6h6, l_nox, l_no2, l_temp, l_rh,
            r3_co, r6_co, r3_nox, r6_nox,
            if 0 < c_nox then c_no2 / c_nox else 0]]
    \<and> length [c_temp, c_rh, c_hour, c_day, c_month,
            l_co, l_c6h6, l_nox, l_no2, l_temp, l_rh,
            r3_co, r6_co, r3_nox, r6_nox,
            if 0 < c_nox then c_no2 / c_nox else 0] = 16"
  using assms by (simp add: prepare_features_def truediv_def)


theorem prepare_features_vector_witness:
  "prepare_features
     [''temp'' \<mapsto> 1, ''rh'' \<mapsto> 2, ''hour_num'' \<mapsto> 3, ''day_of_week'' \<mapsto> 4, ''month'' \<mapsto> 5,
      ''nox'' \<mapsto> 4, ''no2'' \<mapsto> 2]
     [''co'' \<mapsto> 6, ''c6h6'' \<mapsto> 7, ''nox'' \<mapsto> 8, ''no2'' \<mapsto> 9, ''temp'' \<mapsto> 10, ''rh'' \<mapsto> 11]
     [''co'' \<mapsto> 12, ''nox'' \<mapsto> 14]
     [''co'' \<mapsto> 13, ''nox'' \<mapsto> 15]
   = Inr [[1, 2, 3, 4, 5, 6, 7, 8, 9, 10, 11, 12, 13, 14, 15, 1 / 2]]"
  using prepare_features_vector
    [of "[''temp'' \<mapsto> 1, ''rh'' \<mapsto> 2, ''hour_num'' \<mapsto> 3, ''day_of_week'' \<mapsto> 4, ''month'' \<mapsto> 5,
          ''nox'' \<mapsto> 4, ''no2'' \<mapsto> 2]" 1 2 3 4 5 4 2
        "[''co'' \<mapsto> 6, ''c6h6'' \<mapsto> 7, ''nox'' \<mapsto> 8, ''no2'' \<mapsto> 9, ''temp'' \<mapsto> 10, ''rh'' \<mapsto> 11]"
        6 7 8 9 10 11
        "[''co'' \<mapsto> 12, ''nox'' \<mapsto> 14]" 12 14
        "[''co'' \<mapsto> 13, ''nox'' \<mapsto> 15]" 13 15]
  by simp

lemma ratio_step:
  assumes "current_data ''nox'' = Some x"
  shows "(if 0 < x
          then bind (getitem current_data ''no2'') (\<lambda>a.
               bind (getitem current_data ''nox'') (\<lambda>b. truediv a b))
          else Inr 0) \<noteq> Inl ZeroDivisionError"
    and "(if 0 < x
          then bind (getitem current_data ''no2'') (\<lambda>a.
               bind (getitem current_data ''nox'') (\<lambda>b. truediv a b))
          else Inr 0) = Inr r \<Longrightarrow>
         (0 < x \<longrightarrow> (\<exists>n. current_data ''no2'' = Some n \<and> r = n / x)) \<and> (\<not> 0 < x \<longrightarrow> r = 0)"
  using assms by (auto simp add: getitem_def truediv_def split: option.splits if_splits)


lemma features_from_sequence:
  assumes "sequence [a0, a1, a2, a3, a4, a5, a6, a7, a8, a9, a10, a11, a12, a13, a14, Inr r] = Inr fs"
  shows "length fs = 16 \<and> fs ! 15 = r"
proof -
  let ?items = "[a0, a1, a2, a3, a4, a5, a6, a7, a8, a9, a10, a11, a12, a13, a14, Inr r]"
  have e: "?items = map Inr fs"
    using sequence_values [OF assms] .
  have l: "length fs = 16"
    using arg_cong [OF e, of length] by simp
  have "?items ! 15 = map Inr fs ! 15"
    using e by simp
  then have "fs ! 15 = r"
    using l by simp
  with l show ?thesis by simp
qed


lemma prepare_features_unfold:
  assumes "current_data ''nox'' = Some x"
  shows "prepare_features current_data lag_data rolling_3h rolling_6h =
     bind (if 0 < x
           then bind (getitem current_data ''no2'') (\<lambda>a.
                bind (getitem current_data ''nox'') (\<lambda>b. truediv a b))
           else Inr 0) (\<lambda>no2_nox_ratio.
     bind (sequence
            [getitem current_data ''temp'',
             getitem current_data ''rh'',
             getitem current_data ''hour_num'',
             getitem current_data ''day_of_week'',
             getitem current_data ''month'',
             getitem lag_data ''co'',
             getitem lag_data ''c6h6'',
             getitem lag_data ''nox'',
             getitem lag_data ''no2'',
             getitem lag_data ''temp'',
             getitem lag_data ''rh'',
             getitem rolling_3h ''co'',
             getitem rolling_6h ''co'',
             getitem rolling_3h ''nox'',
             getitem rolling_6h ''nox'',
             Inr no2_nox_ratio]) (\<lambda>features.
     Inr [features]))"
proof -
  have g: "getitem current_data ''nox'' = Inr x"
    using assms by (simp add: getitem_def)
  show ?thesis
    by (simp only: prepare_features_def g bind_Inr)
qed

lemma prepare_features_no_nox:
  assumes "current_data ''nox'' = None"
  shows "prepare_features current_data lag_data rolling_3h rolling_6h = Inl (KeyError ''nox'')"
  unfolding prepare_features_def using assms by (simp add: getitem_def)

lemma prepare_features_no_no2:
  assumes "current_data ''nox'' = Some x" "0 < x" "current_data ''no2'' = None"
  shows "prepare_features current_data lag_data rolling_3h rolling_6h = Inl (KeyError ''no2'')"
  unfolding prepare_features_def using assms by (simp add: getitem_def)

lemma prepare_features_present:
  assumes nox: "current_data ''nox'' = Some x"
    and no2: "0 < x \<Longrightarrow> current_data ''no2'' = Some n"
    and kc: "{''temp'', ''rh'', ''hour_num'', ''day_of_week'', ''month''} \<subseteq> dom current_data"
    and kl: "{''co'', ''c6h6'', ''nox'', ''no2'', ''temp'', ''rh''} \<subseteq> dom lag_data"
    and k3: "{''co'', ''nox''} \<subseteq> dom rolling_3h"
    and k6: "{''co'', ''nox''} \<subseteq> dom rolling_6h"
  shows "\<exists>features. prepare_features current_data lag_data rolling_3h rolling_6h = Inr [features]
     \<and> length features = 16 \<and> features ! 15 = (if 0 < x then n / x else 0)"
proof -
  from kc obtain a1 a2 a3 a4 a5 where c:
    "current_data ''temp'' = Some a1" "current_data ''rh'' = Some a2"
    "current_data ''hour_num'' = Some a3" "current_data ''day_of_week'' = Some a4"
    "current_data ''month'' = Some a5"
    by (auto simp add: dom_def)
  from kl obtain b1 b2 b3 b4 b5 b6 where l:
    "lag_data ''co'' = Some b1" "lag_data ''c6h6'' = Some b2" "lag_data ''nox'' = Some b3"
    "lag_data ''no2'' = Some b4" "lag_data ''temp'' = Some b5" "lag_data ''rh'' = Some b6"
    by (auto simp add: dom_def)
  from k3 obtain c1 c2 where r3: "rolling_3h ''co'' = Some c1" "rolling_3h ''nox'' = Some c2"
    by (auto simp add: dom_def)
  from k6 obtain d1 d2 where r6: "rolling_6h ''co'' = Some d1" "rolling_6h ''nox'' = Some d2"
    by (auto simp add: dom_def)
  show ?thesis
  proof (cases "0 < x")
    case True
    then have "current_data ''no2'' = Some n" by (rule no2)
    then show ?thesis
      using True nox c l r3 r6 by (simp add: prepare_features_def truediv_def)
  next
    case False
    then show ?thesis
      using nox c l r3 r6 by (simp add: prepare_features_def)
  qed
qed

text \<open>
  Claim C8. \<open>prepare_features\<close> never raises \<open>ZeroDivisionError\<close>, for any input. When it
  returns, the current reading has a \<open>nox\<close> field and the last of the 16 features is
  \<open>no2 / nox\<close> of the current reading when \<open>nox > 0\<close>, and 0 when \<open>nox\<close> is zero or
  negative. And it does return: when the fields it reads are present, with \<open>nox > 0\<close> the
  result is one row of 16 features whose last is \<open>no2 / nox\<close>, and with \<open>nox\<close> zero or
  negative it is one row of 16 features whose last is 0, whether or not the current
  reading has a \<open>no2\<close> field. The only exceptions are the \<open>KeyError\<close> of a missing field:
  that of \<open>nox\<close> when it is missing, that of \<open>no2\<close> when \<open>nox > 0\<close> and \<open>no2\<close> is missing.
\<close>

theorem no2_nox_ratio_guarded:
  "prepare_features current_data lag_data rolling_3h rolling_6h \<noteq> Inl ZeroDivisionError
   \<and> (prepare_features current_data lag_data rolling_3h rolling_6h = Inr rows \<longrightarrow>
        (\<exists>v features. current_data ''nox'' = Some v \<and> rows = [features] \<and> length features = 16
           \<and> (0 < v \<longrightarrow> (\<exists>w. current_data ''no2'' = Some w \<and> features ! 15 = w / v))
           \<and> (\<not> 0 < v \<longrightarrow> features ! 15 = 0)))
   \<and> (current_data ''nox'' = Some x \<and> 0 < x \<and> current_data ''no2'' = Some n
        \<and> {''temp'', ''rh'', ''hour_num'', ''day_of_week'', ''month''} \<subseteq> dom current_data
        \<and> {''co'', ''c6h6'', ''nox'', ''no2'', ''temp'', ''rh''} \<subseteq> dom lag_data
        \<and> {''co'', ''nox''} \<subseteq> dom rolling_3h \<and> {''co'', ''nox''} \<subseteq> dom rolling_6h \<longrightarrow>
        (\<exists>features. prepare_features current_data lag_data rolling_3h rolling_6h = Inr [features]
           \<and> length features = 16 \<and> features ! 15 = n / x))
   \<and> (current_data ''nox'' = Some x \<and> \<not> 0 < x
        \<and> {''temp'', ''rh'', ''hour_num'', ''day_of_week'', ''month''} \<subseteq> dom current_data
        \<and> {''co'', ''c6h6'', ''nox'', ''no2'', ''temp'', ''rh''} \<subseteq> dom lag_data
        \<and> {''co'', ''nox''} \<subseteq> dom rolling_3h \<and> {''co'', ''nox''} \<subseteq> dom rolling_6h \<longrightarrow>
        (\<exists>features. prepare_features current_data lag_data rolling_3h rolling_6h = Inr [features]
           \<and> length features = 16 \<and> features ! 15 = 0))
   \<and> (current_data ''nox'' = None \<longrightarrow>
        prepare_features current_data lag_data rolling_3h rolling_6h = Inl (KeyError ''nox''))
   \<and> (current_data ''nox'' = Some x \<and> 0 < x \<and> current_data ''no2'' = None \<longrightarrow>
        prepare_features current_data lag_data rolling_3h rolling_6h = Inl (KeyError ''no2''))"
proof -
  have nz: "prepare_features current_data lag_data rolling_3h rolling_6h \<noteq> Inl ZeroDivisionError
   \<and> (prepare_features current_data lag_data rolling_3h rolling_6h = Inr rows \<longrightarrow>
        (\<exists>v features. current_data ''nox'' = Some v \<and> rows = [features] \<and> length features = 16
           \<and> (0 < v \<longrightarrow> (\<exists>w. current_data ''no2'' = Some w \<and> features ! 15 = w / v))
           \<and> (\<not> 0 < v \<longrightarrow> features ! 15 = 0)))"
  proof (cases "current_data ''nox''")
    case None
    then show ?thesis by (simp add: prepare_features_no_nox)
  next
    case (Some x)
    let ?ratio = "if 0 < x
             then bind (getitem current_data ''no2'') (\<lambda>a.
                  bind (getitem current_data ''nox'') (\<lambda>b. truediv a b))
             else Inr 0"
    let ?items = "\<lambda>r. [getitem current_data ''temp'',
               getitem current_data ''rh'',
               getitem current_data ''hour_num'',
               getitem current_data ''day_of_week'',
               getitem current_data ''month'',
               getitem lag_data ''co'',
               getitem lag_data ''c6h6'',
               getitem lag_data ''nox'',
               getitem lag_data ''no2'',
               getitem lag_data ''temp'',
               getitem lag_data ''rh'',
               getitem rolling_3h ''co'',
               getitem rolling_6h ''co'',
               getitem rolling_3h ''nox'',
               getitem rolling_6h ''nox'',
               Inr r]"
    have u: "prepare_features current_data lag_data rolling_3h rolling_6h =
        bind ?ratio (\<lambda>r. bind (sequence (?items r)) (\<lambda>features. Inr [features]))"
      using Some by (rule prepare_features_unfold)
    have a: "prepare_features current_data lag_data rolling_3h rolling_6h \<noteq> Inl ZeroDivisionError"
    proof
      assume "prepare_features current_data lag_data rolling_3h rolling_6h = Inl ZeroDivisionError"
      then have "bind ?ratio (\<lambda>r. bind (sequence (?items r)) (\<lambda>features. Inr [features]))
          = Inl ZeroDivisionError"
        using u by simp
      then obtain r where "bind (sequence (?items r)) (\<lambda>features. Inr [features]) = Inl ZeroDivisionError"
        using bind_eq_Inl ratio_step(1) [of current_data x, OF Some] by blast
      then have "sequence (?items r) = Inl ZeroDivisionError"
        by (cases "sequence (?items r)") auto
      then have "Inl ZeroDivisionError \<in> set (?items r)"
        by (rule sequence_error)
      then show False
        by (simp add: getitem_not_zero_division [symmetric])
    qed
    have b: "\<exists>v features. current_data ''nox'' = Some v \<and> rows = [features] \<and> length features = 16
             \<and> (0 < v \<longrightarrow> (\<exists>w. current_data ''no2'' = Some w \<and> features ! 15 = w / v))
             \<and> (\<not> 0 < v \<longrightarrow> features ! 15 = 0)"
      if ok: "prepare_features current_data lag_data rolling_3h rolling_6h = Inr rows"
    proof -
      from ok u have "bind ?ratio (\<lambda>r. bind (sequence (?items r)) (\<lambda>features. Inr [features])) = Inr rows"
        by simp
      from bind_eq_Inr [OF this] obtain r where r: "?ratio = Inr r"
        and s: "bind (sequence (?items r)) (\<lambda>features. Inr [features]) = Inr rows"
        by blast
      from bind_eq_Inr [OF s] obtain fs where fs: "sequence (?items r) = Inr fs" and rows: "rows = [fs]"
        by blast
      have f: "length fs = 16 \<and> fs ! 15 = r"
        using fs by (rule features_from_sequence)
      have q: "(0 < x \<longrightarrow> (\<exists>w. current_data ''no2'' = Some w \<and> r = w / x)) \<and> (\<not> 0 < x \<longrightarrow> r = 0)"
        using ratio_step(2) [of current_data x r, OF Some r] .
      have "current_data ''nox'' = Some x \<and> rows = [fs] \<and> length fs = 16
             \<and> (0 < x \<longrightarrow> (\<exists>w. current_data ''no2'' = Some w \<and> fs ! 15 = w / x))
             \<and> (\<not> 0 < x \<longrightarrow> fs ! 15 = 0)"
        using Some rows f q by simp
      then show ?thesis by blast
    qed
    show ?thesis using a b by blast
  qed
  have pos: "\<exists>features. prepare_features current_data lag_data rolling_3h rolling_6h = Inr [features]
           \<and> length features = 16 \<and> features ! 15 = n / x"
    if "current_data ''nox'' = Some x" "0 < x" "current_data ''no2'' = Some n"
      "{''temp'', ''rh'', ''hour_num'', ''day_of_week'', ''month''} \<subseteq> dom current_data"
      "{''co'', ''c6h6'', ''nox'', ''no2'', ''temp'', ''rh''} \<subseteq> dom lag_data"
      "{''co'', ''nox''} \<subseteq> dom rolling_3h" "{''co'', ''nox''} \<subseteq> dom rolling_6h"
    using prepare_features_present [of current_data x n lag_data rolling_3h rolling_6h] that
    by simp
  have neg: "\<exists>features. prepare_features current_data lag_data rolling_3h rolling_6h = Inr [features]
           \<and> length features = 16 \<and> features ! 15 = 0"
    if "current_data ''nox'' = Some x" "\<not> 0 < x"
      "{''temp'', ''rh'', ''hour_num'', ''day_of_week'', ''month''} \<subseteq> dom current_data"
      "{''co'', ''c6h6'', ''nox'', ''no2'', ''temp'', ''rh''} \<subseteq> dom lag_data"
      "{''co'', ''nox''} \<subseteq> dom rolling_3h" "{''co'', ''nox''} \<subseteq> dom rolling_6h"
    using prepare_features_present [of current_data x 0 lag_data rolling_3h rolling_6h] that
    by simp
  have k1: "prepare_features current_data lag_data rolling_3h rolling_6h = Inl (KeyError ''nox'')"
    if "current_data ''nox'' = None"
    using that by (rule prepare_features_no_nox)
  have k2: "prepare_features current_data lag_data rolling_3h rolling_6h = Inl (KeyError ''no2'')"
    if "current_data ''nox'' = Some x" "0 < x" "current_data ''no2'' = None"
    using that by (rule prepare_features_no_no2)
  show ?thesis
    using nz pos neg k1 k2 by blast
qed

theorem no2_nox_ratio_guarded_witness:
  "(\<exists>features.
      prepare_features
        [''temp'' \<mapsto> 1, ''rh'' \<mapsto> 2, ''hour_num'' \<mapsto> 3, ''day_of_week'' \<mapsto> 4, ''month'' \<mapsto> 5,
         ''nox'' \<mapsto> 4, ''no2'' \<mapsto> 2]
        [''co'' \<mapsto> 6, ''c6h6'' \<mapsto> 7, ''nox'' \<mapsto> 8, ''no2'' \<mapsto> 9, ''temp'' \<mapsto> 10, ''rh'' \<mapsto> 11]
        [''co'' \<mapsto> 12, ''nox'' \<mapsto> 14]
        [''co'' \<mapsto> 13, ''nox'' \<mapsto> 15] = Inr [features]
      \<and> length features = 16 \<and> features ! 15 = 2 / 4)
   \<and> (\<exists>features.
      prepare_features
        [''temp'' \<mapsto> 1, ''rh'' \<mapsto> 2, ''hour_num'' \<mapsto> 3, ''day_of_week'' \<mapsto> 4, ''month'' \<mapsto> 5,
         ''nox'' \<mapsto> 0, ''no2'' \<mapsto> 2]
        [''co'' \<mapsto> 6, ''c6h6'' \<mapsto> 7, ''nox'' \<mapsto> 8, ''no2'' \<mapsto> 9, ''temp'' \<mapsto> 10, ''rh'' \<mapsto> 11]
        [''co'' \<mapsto> 12, ''nox'' \<mapsto> 14]
        [''co'' \<mapsto> 13, ''nox'' \<mapsto> 15] = Inr [features]
      \<and> length features = 16 \<and> features ! 15 = 0)
   \<and> (\<exists>features.
      prepare_features
        [''temp'' \<mapsto> 1, ''rh'' \<mapsto> 2, ''hour_num'' \<mapsto> 3, ''day_of_week'' \<mapsto> 4, ''month'' \<mapsto> 5,
         ''nox'' \<mapsto> - 1]
        [''co'' \<mapsto> 6, ''c6h6'' \<mapsto> 7, ''nox'' \<mapsto> 8, ''no2'' \<mapsto> 9, ''temp'' \<mapsto> 10, ''rh'' \<mapsto> 11]
        [''co'' \<mapsto> 12, ''nox'' \<mapsto> 14]
        [''co'' \<mapsto> 13, ''nox'' \<mapsto> 15] = Inr [features]
      \<and> length features = 16 \<and> features ! 15 = 0)
   \<and> prepare_features
        [''temp'' \<mapsto> 1, ''rh'' \<mapsto> 2, ''hour_num'' \<mapsto> 3, ''day_of_week'' \<mapsto> 4, ''month'' \<mapsto> 5,
         ''nox'' \<mapsto> 4]
        [''co'' \<mapsto> 6, ''c6h6'' \<mapsto> 7, ''nox'' \<mapsto> 8, ''no2'' \<mapsto> 9, ''temp'' \<mapsto> 10, ''rh'' \<mapsto> 11]
        [''co'' \<mapsto> 12, ''nox'' \<mapsto> 14]
        [''co'' \<mapsto> 13, ''nox'' \<mapsto> 15] = Inl (KeyError ''no2'')"
proof -
  let ?l = "[''co'' \<mapsto> 6, ''c6h6'' \<mapsto> 7, ''nox'' \<mapsto> 8, ''no2'' \<mapsto> 9, ''temp'' \<mapsto> 10, ''rh'' \<mapsto> (11::real)]"
  let ?r3 = "[''co'' \<mapsto> 12, ''nox'' \<mapsto> (14::real)]"
  let ?r6 = "[''co'' \<mapsto> 13, ''nox'' \<mapsto> (15::real)]"
  let ?c4 = "[''temp'' \<mapsto> 1, ''rh'' \<mapsto> 2, ''hour_num'' \<mapsto> 3, ''day_of_week'' \<mapsto> 4, ''month'' \<mapsto> 5,
         ''nox'' \<mapsto> 4, ''no2'' \<mapsto> (2::real)]"
  let ?c0 = "[''temp'' \<mapsto> 1, ''rh'' \<mapsto> 2, ''hour_num'' \<mapsto> 3, ''day_of_week'' \<mapsto> 4, ''month'' \<mapsto> 5,
         ''nox'' \<mapsto> 0, ''no2'' \<mapsto> (2::real)]"
  let ?cn = "[''temp'' \<mapsto> 1, ''rh'' \<mapsto> 2, ''hour_num'' \<mapsto> 3, ''day_of_week'' \<mapsto> 4, ''month'' \<mapsto> 5,
         ''nox'' \<mapsto> - (1::real)]"
  let ?ck = "[''temp'' \<mapsto> 1, ''rh'' \<mapsto> 2, ''hour_num'' \<mapsto> 3, ''day_of_week'' \<mapsto> 4, ''month'' \<mapsto> 5,
         ''nox'' \<mapsto> (4::real)]"
  have a: "\<exists>features. prepare_features ?c4 ?l ?r3 ?r6 = Inr [features]
      \<and> length features = 16 \<and> features ! 15 = 2 / 4"
    using no2_nox_ratio_guarded [of ?c4 ?l ?r3 ?r6 "[]" 4 2] by simp
  have b: "\<exists>features. prepare_features ?c0 ?l ?r3 ?r6 = Inr [features]
      \<and> length features = 16 \<and> features ! 15 = 0"
    using no2_nox_ratio_guarded [of ?c0 ?l ?r3 ?r6 "[]" 0 2] by simp
  have c: "\<exists>features. prepare_features ?cn ?l ?r3 ?r6 = Inr [features]
      \<and> length features = 16 \<and> features ! 15 = 0"
    using no2_nox_ratio_guarded [of ?cn ?l ?r3 ?r6 "[]" "- 1" 2] by simp
  have d: "prepare_features ?ck ?l ?r3 ?r6 = Inl (KeyError ''no2'')"
    using no2_nox_ratio_guarded [of ?ck ?l ?r3 ?r6 "[]" 4 2] by simp
  show ?thesis using a b c d by (simp only: simp_thms)
qed

section \<open>Properties of the endpoint\<close>

subsection \<open>The predicted score\<close>

lemma predict_score_short:
  assumes "length hist < 6"
  shows "predict_score e k hist cur = (Inr (jittered cur (random e k)), [], k + 1)"
  using assms by (simp add: predict_score_def)

lemma predict_score_false:
  assumes "model e = None
      \<or> (model e = Some m \<and> model_bool m = Inr False)
      \<or> (model e = Some m \<and> model_bool m = Inr True \<and> scaler e = None)
      \<or> (model e = Some m \<and> model_bool m = Inr True
           \<and> scaler e = Some sc \<and> scaler_bool sc = Inr False)"
  shows "predict_score e k hist cur = (Inr (jittered cur (random e k)), [], k + 1)"
proof (cases "6 \<le> length hist")
  case False
  then show ?thesis by (simp add: predict_score_short)
next
  case True
  from assms show ?thesis
  proof (elim disjE conjE)
    assume "model e = None"
    then show ?thesis using True by (simp add: predict_score_def Let_def)
  next
    assume "model e = Some m" "model_bool m = Inr False"
    then show ?thesis using True by (simp add: predict_score_def Let_def)
  next
    assume "model e = Some m" "model_bool m = Inr True" "scaler e = None"
    then show ?thesis using True by (simp add: predict_score_def Let_def)
  next
    assume "model e = Some m" "model_bool m = Inr True" "scaler e = Some sc"
      "scaler_bool sc = Inr False"
    then show ?thesis using True by (simp add: predict_score_def Let_def)
  qed
qed

lemma predict_score_fallback:
  assumes "length hist < 6
      \<or> model e = None
      \<or> (model e = Some m \<and> model_bool m = Inr False)
      \<or> (model e = Some m \<and> model_bool m = Inr True \<and> scaler e = None)
      \<or> (model e = Some m \<and> model_bool m = Inr True
           \<and> scaler e = Some sc \<and> scaler_bool sc = Inr False)"
  shows "predict_score e k hist cur = (Inr (jittered cur (random e k)), [], k + 1)"
proof (cases "length hist < 6")
  case True
  then show ?thesis by (rule predict_score_short)
next
  case False
  then have "model e = None
      \<or> (model e = Some m \<and> model_bool m = Inr False)
      \<or> (model e = Some m \<and> model_bool m = Inr True \<and> scaler e = None)
      \<or> (model e = Some m \<and> model_bool m = Inr True
           \<and> scaler e = Some sc \<and> scaler_bool sc = Inr False)"
    using assms by blast
  then show ?thesis by (rule predict_score_false)
qed

lemma predict_score_model_raises:
  assumes "6 \<le> length hist" "model e = Some m" "model_bool m = Inl err"
  shows "predict_score e k hist cur = (Inl err, [], k)"
  using assms by (simp add: predict_score_def Let_def)

lemma predict_score_scaler_raises:
  assumes "6 \<le> length hist" "model e = Some m" "model_bool m = Inr True"
    "scaler e = Some sc" "scaler_bool sc = Inl err"
  shows "predict_score e k hist cur = (Inl err, [], k)"
  using assms by (simp add: predict_score_def Let_def)

lemma predict_score_features:
  "prepare_features
           [''co'' \<mapsto> co cur, ''c6h6'' \<mapsto> c6h6 cur, ''nox'' \<mapsto> nox cur,
            ''no2'' \<mapsto> no2 cur, ''temp'' \<mapsto> temp cur, ''rh'' \<mapsto> rh cur,
            ''hour_num'' \<mapsto> of_int (dt_hour (now_req e)),
            ''day_of_week'' \<mapsto> of_int (weekday e (now_req e)),
            ''month'' \<mapsto> of_int (month e (now_req e))]
           [''co'' \<mapsto> co (hist ! (length hist - 2)),
            ''c6h6'' \<mapsto> c6h6 (hist ! (length hist - 2)),
            ''nox'' \<mapsto> nox (hist ! (length hist - 2)),
            ''no2'' \<mapsto> no2 (hist ! (length hist - 2)),
            ''temp'' \<mapsto> temp (hist ! (length hist - 2)),
            ''rh'' \<mapsto> rh (hist ! (length hist - 2))]
           [''co'' \<mapsto> np_mean (map co (tail_slice 3 hist)),
            ''nox'' \<mapsto> np_mean (map nox (tail_slice 3 hist))]
           [''co'' \<mapsto> np_mean (map co (tail_slice 6 hist)),
            ''nox'' \<mapsto> np_mean (map nox (tail_slice 6 hist))]
         = Inr [spec_feature_vector e hist cur]"
  by (simp add: prepare_features_def truediv_def spec_feature_vector_def Let_def np_mean_def
        tail_slice_def)


lemma predict_score_model:
  assumes "6 \<le> length hist" "model e = Some m" "model_bool m = Inr True"
    "scaler e = Some sc" "scaler_bool sc = Inr True"
  shows "predict_score e k hist cur =
     (fst (run_model m sc [spec_feature_vector e hist cur]),
      snd (run_model m sc [spec_feature_vector e hist cur]), k)"
  using assms by (simp add: predict_score_def Let_def predict_score_features)

lemma run_model_ok:
  assumes "transform sc features = Inr scaled" "predict m scaled = Inr (y # ys)"
  shows "run_model m sc features = (Inr (max 0 (min 10 y)), [Transform features, Predict scaled])"
  using assms by (simp add: run_model_def)

lemma score_and_report_fallback:
  assumes "hist \<noteq> []"
    "length hist < 6
      \<or> model e = None
      \<or> (model e = Some m \<and> model_bool m = Inr False)
      \<or> (model e = Some m \<and> model_bool m = Inr True \<and> scaler e = None)
      \<or> (model e = Some m \<and> model_bool m = Inr True
           \<and> scaler e = Some sc \<and> scaler_bool sc = Inr False)"
  shows "score_and_report e k hist =
     (Inr (success_payload hist (last hist) (jittered (last hist) (random e k))), [])"
  using assms(1) predict_score_fallback [OF assms(2), of k "last hist"]
  by (simp add: score_and_report_def py_last_def)

lemma score_and_report_no_call:
  assumes "length hist < 6
      \<or> model e = None
      \<or> (model e = Some m \<and> model_bool m = Inr False)
      \<or> (model e = Some m \<and> model_bool m = Inr True \<and> scaler e = None)
      \<or> (model e = Some m \<and> model_bool m = Inr True
           \<and> scaler e = Some sc \<and> scaler_bool sc = Inr False)"
  shows "snd (score_and_report e k hist) = []"
proof (cases "hist = []")
  case True
  then show ?thesis by (simp add: score_and_report_def py_last_def)
next
  case False
  then show ?thesis using score_and_report_fallback [OF False assms] by simp
qed

text \<open>
  Claim C4, as amended. Line 159 tests the truth values of the two artifacts, not their
  presence. When the sequence of readings has fewer than 6 elements, or the model is
  \<open>None\<close> or false, or the model is true and the scaler is \<open>None\<close> or false, no call of
  \<open>transform\<close> or \<open>predict\<close> is made and the predicted score is
  \<open>current.score * uniform(0.9, 1.1)\<close>, as it is, without a clamp; \<open>current\<close> is the last
  reading, which exists when the sequence is not empty. When there are at least 6
  readings and both artifacts are true, the feature vector is transformed, the result is
  predicted on, in that order, and the predicted score is element 0 of the prediction
  clamped to \<open>[0, 10]\<close>. When there are at least 6 readings and the truth value of the
  model, or that of the scaler after a true model, raises, the exception propagates and
  no call is made.
\<close>

theorem fallback_or_clamped_model_by_truth:
  "(length hist < 6
      \<or> model e = None
      \<or> (model e = Some m \<and> model_bool m = Inr False)
      \<or> (model e = Some m \<and> model_bool m = Inr True \<and> scaler e = None)
      \<or> (model e = Some m \<and> model_bool m = Inr True
           \<and> scaler e = Some sc \<and> scaler_bool sc = Inr False) \<longrightarrow>
      predict_score e k hist cur = (Inr (score cur * uniform 0.9 1.1 (random e k)), [], k + 1)
      \<and> snd (score_and_report e k hist) = []
      \<and> (hist \<noteq> [] \<longrightarrow>
           fst (score_and_report e k hist) =
             Inr (success_payload hist (last hist)
                    (score (last hist) * uniform 0.9 1.1 (random e k)))))
   \<and> (6 \<le> length hist \<and> model e = Some m \<and> model_bool m = Inr True
        \<and> scaler e = Some sc \<and> scaler_bool sc = Inr True
        \<and> transform sc [spec_feature_vector e hist cur] = Inr scaled
        \<and> predict m scaled = Inr (y # ys) \<longrightarrow>
      predict_score e k hist cur =
        (Inr (clamp y 0 10), [Transform [spec_feature_vector e hist cur], Predict scaled], k))
   \<and> (6 \<le> length hist \<and> model e = Some m
        \<and> (model_bool m = Inl err
            \<or> (model_bool m = Inr True \<and> scaler e = Some sc \<and> scaler_bool sc = Inl err)) \<longrightarrow>
      predict_score e k hist cur = (Inl err, [], k))"
proof -
  have a: "predict_score e k hist cur = (Inr (score cur * uniform 0.9 1.1 (random e k)), [], k + 1)"
    if "length hist < 6
      \<or> model e = None
      \<or> (model e = Some m \<and> model_bool m = Inr False)
      \<or> (model e = Some m \<and> model_bool m = Inr True \<and> scaler e = None)
      \<or> (model e = Some m \<and> model_bool m = Inr True
           \<and> scaler e = Some sc \<and> scaler_bool sc = Inr False)"
    using predict_score_fallback [OF that] by (simp add: jittered_def)
  have b: "snd (score_and_report e k hist) = []"
    if "length hist < 6
      \<or> model e = None
      \<or> (model e = Some m \<and> model_bool m = Inr False)
      \<or> (model e = Some m \<and> model_bool m = Inr True \<and> scaler e = None)
      \<or> (model e = Some m \<and> model_bool m = Inr True
           \<and> scaler e = Some sc \<and> scaler_bool sc = Inr False)"
    using that by (rule score_and_report_no_call)
  have c: "fst (score_and_report e k hist) =
             Inr (success_payload hist (last hist)
                    (score (last hist) * uniform 0.9 1.1 (random e k)))"
    if h: "length hist < 6
      \<or> model e = None
      \<or> (model e = Some m \<and> model_bool m = Inr False)
      \<or> (model e = Some m \<and> model_bool m = Inr True \<and> scaler e = None)
      \<or> (model e = Some m \<and> model_bool m = Inr True
           \<and> scaler e = Some sc \<and> scaler_bool sc = Inr False)" and ne: "hist \<noteq> []"
    using score_and_report_fallback [OF ne h] by (simp add: jittered_def)
  have d: "predict_score e k hist cur =
        (Inr (clamp y 0 10), [Transform [spec_feature_vector e hist cur], Predict scaled], k)"
    if "6 \<le> length hist" "model e = Some m" "model_bool m = Inr True"
      "scaler e = Some sc" "scaler_bool sc = Inr True"
      "transform sc [spec_feature_vector e hist cur] = Inr scaled" "predict m scaled = Inr (y # ys)"
    using predict_score_model [OF that(1,2,3,4,5)]
      run_model_ok [of sc "[spec_feature_vector e hist cur]" scaled m y ys, OF that(6,7)]
    by (simp add: clamp_def)
  have f: "predict_score e k hist cur = (Inl err, [], k)"
    if "6 \<le> length hist" "model e = Some m"
      "model_bool m = Inl err
            \<or> (model_bool m = Inr True \<and> scaler e = Some sc \<and> scaler_bool sc = Inl err)"
    using that predict_score_model_raises [of hist e m err k cur]
      predict_score_scaler_raises [of hist e m sc err k cur]
    by blast
  show ?thesis using a b c d f by blast
qed

theorem fallback_or_clamped_model_by_truth_witness:
  "length [\<lparr> timestamp = 0, hour = ''00:00'', co = 1, c6h6 = 1, nox = 1, no2 = 1, temp = 1, rh = 1,
             score = 5 \<rparr>] < 6
   \<and> predict_score
        \<lparr> random = (\<lambda>_. 1 / 2), now_gen = 0, now_req = 0, weekday = (\<lambda>_. 0), month = (\<lambda>_. 1),
          model = Some \<lparr> model_bool = Inr True, predict = (\<lambda>_. Inr [12]) \<rparr>,
          scaler = Some \<lparr> scaler_bool = Inr True, transform = (\<lambda>x. Inr x) \<rparr> \<rparr> 0
        [\<lparr> timestamp = 0, hour = ''00:00'', co = 1, c6h6 = 1, nox = 1, no2 = 1, temp = 1, rh = 1,
             score = 5 \<rparr>]
        \<lparr> timestamp = 0, hour = ''00:00'', co = 1, c6h6 = 1, nox = 1, no2 = 1, temp = 1, rh = 1,
             score = 5 \<rparr>
      = (Inr 5, [], 1)
   \<and> 6 \<le> length (replicate 6 \<lparr> timestamp = 0, hour = ''00:00'', co = 1, c6h6 = 1, nox = 1, no2 = 1, temp = 1, rh = 1,
             score = 5 \<rparr>)
   \<and> fst (predict_score
        \<lparr> random = (\<lambda>_. 1 / 2), now_gen = 0, now_req = 0, weekday = (\<lambda>_. 0), month = (\<lambda>_. 1),
          model = Some \<lparr> model_bool = Inr True, predict = (\<lambda>_. Inr [12]) \<rparr>,
          scaler = Some \<lparr> scaler_bool = Inr True, transform = (\<lambda>x. Inr x) \<rparr> \<rparr> 0
        (replicate 6 \<lparr> timestamp = 0, hour = ''00:00'', co = 1, c6h6 = 1, nox = 1, no2 = 1, temp = 1, rh = 1,
             score = 5 \<rparr>)
        \<lparr> timestamp = 0, hour = ''00:00'', co = 1, c6h6 = 1, nox = 1, no2 = 1, temp = 1, rh = 1,
             score = 5 \<rparr>)
      = Inr 10
   \<and> predict_score
        \<lparr> random = (\<lambda>_. 1 / 2), now_gen = 0, now_req = 0, weekday = (\<lambda>_. 0), month = (\<lambda>_. 1),
          model = Some \<lparr> model_bool = Inr False, predict = (\<lambda>_. Inr [12]) \<rparr>,
          scaler = Some \<lparr> scaler_bool = Inr True, transform = (\<lambda>x. Inr x) \<rparr> \<rparr> 0
        (replicate 6 \<lparr> timestamp = 0, hour = ''00:00'', co = 1, c6h6 = 1, nox = 1, no2 = 1, temp = 1, rh = 1,
             score = 5 \<rparr>)
        \<lparr> timestamp = 0, hour = ''00:00'', co = 1, c6h6 = 1, nox = 1, no2 = 1, temp = 1, rh = 1,
             score = 5 \<rparr>
      = (Inr 5, [], 1)
   \<and> predict_score
        \<lparr> random = (\<lambda>_. 1 / 2), now_gen = 0, now_req = 0, weekday = (\<lambda>_. 0), month = (\<lambda>_. 1),
          model = Some \<lparr> model_bool = Inl (ArtifactError ''ambiguous''), predict = (\<lambda>_. Inr [12]) \<rparr>,
          scaler = Some \<lparr> scaler_bool = Inr True, transform = (\<lambda>x. Inr x) \<rparr> \<rparr> 0
        (replicate 6 \<lparr> timestamp = 0, hour = ''00:00'', co = 1, c6h6 = 1, nox = 1, no2 = 1, temp = 1, rh = 1,
             score = 5 \<rparr>)
        \<lparr> timestamp = 0, hour = ''00:00'', co = 1, c6h6 = 1, nox = 1, no2 = 1, temp = 1, rh = 1,
             score = 5 \<rparr>
      = (Inl (ArtifactError ''ambiguous''), [], 0)"
proof -
  let ?r = "\<lparr> timestamp = 0, hour = ''00:00'', co = 1, c6h6 = 1, nox = 1, no2 = 1, temp = 1, rh = 1,
             score = 5 \<rparr>"
  let ?mt = "\<lparr> model_bool = Inr True, predict = (\<lambda>_. Inr [12]) \<rparr>"
  let ?mf = "\<lparr> model_bool = Inr False, predict = (\<lambda>_. Inr [12]) \<rparr>"
  let ?mr = "\<lparr> model_bool = Inl (ArtifactError ''ambiguous''), predict = (\<lambda>_. Inr [12]) \<rparr>"
  let ?s = "\<lparr> scaler_bool = Inr True, transform = (\<lambda>x. Inr x) \<rparr>"
  let ?et = "\<lparr> random = (\<lambda>_. 1 / 2), now_gen = 0, now_req = 0, weekday = (\<lambda>_. 0), month = (\<lambda>_. 1),
          model = Some \<lparr> model_bool = Inr True, predict = (\<lambda>_. Inr [12]) \<rparr>,
          scaler = Some \<lparr> scaler_bool = Inr True, transform = (\<lambda>x. Inr x) \<rparr> \<rparr>"
  let ?ef = "\<lparr> random = (\<lambda>_. 1 / 2), now_gen = 0, now_req = 0, weekday = (\<lambda>_. 0), month = (\<lambda>_. 1),
          model = Some \<lparr> model_bool = Inr False, predict = (\<lambda>_. Inr [12]) \<rparr>,
          scaler = Some \<lparr> scaler_bool = Inr True, transform = (\<lambda>x. Inr x) \<rparr> \<rparr>"
  let ?er = "\<lparr> random = (\<lambda>_. 1 / 2), now_gen = 0, now_req = 0, weekday = (\<lambda>_. 0), month = (\<lambda>_. 1),
          model = Some \<lparr> model_bool = Inl (ArtifactError ''ambiguous''), predict = (\<lambda>_. Inr [12]) \<rparr>,
          scaler = Some \<lparr> scaler_bool = Inr True, transform = (\<lambda>x. Inr x) \<rparr> \<rparr>"
  have a: "predict_score ?et 0 [?r] ?r = (Inr 5, [], 1)"
    using fallback_or_clamped_model_by_truth [of "[?r]" ?et ?mt ?s 0 ?r]
    by (simp add: uniform_def)
  have b: "fst (predict_score ?et 0 (replicate 6 ?r) ?r) = Inr 10"
    using fallback_or_clamped_model_by_truth [of "replicate 6 ?r" ?et ?mt ?s 0 ?r
        "[spec_feature_vector ?et (replicate 6 ?r) ?r]" 12 "[]"]
    by (simp add: clamp_def)
  have c: "predict_score ?ef 0 (replicate 6 ?r) ?r = (Inr 5, [], 1)"
    using fallback_or_clamped_model_by_truth [of "replicate 6 ?r" ?ef ?mf ?s 0 ?r]
    by (simp add: uniform_def)
  have d: "predict_score ?er 0 (replicate 6 ?r) ?r = (Inl (ArtifactError ''ambiguous''), [], 0)"
    using fallback_or_clamped_model_by_truth [of "replicate 6 ?r" ?er ?mr ?s 0 ?r _ _ _
        "ArtifactError ''ambiguous''"]
    by simp
  show ?thesis using a b c d by simp
qed

text \<open>
  The claim as stated, for artifacts that are present, fails: with a model and a scaler
  both loaded, 6 readings, a transform that returns its argument and a prediction of 12,
  a model whose truth value is false sends the request to the fallback. The predicted
  score is \<open>5 * uniform(0.9, 1.1) = 5\<close> with no call made, not \<open>clamp(12, 0, 10) = 10\<close>.
\<close>

theorem present_artifacts_counterexample:
  "model \<lparr> random = (\<lambda>_. 1 / 2), now_gen = 0, now_req = 0, weekday = (\<lambda>_. 0), month = (\<lambda>_. 1),
          model = Some \<lparr> model_bool = Inr False, predict = (\<lambda>_. Inr [12]) \<rparr>,
          scaler = Some \<lparr> scaler_bool = Inr True, transform = (\<lambda>x. Inr x) \<rparr> \<rparr> =
      Some \<lparr> model_bool = Inr False, predict = (\<lambda>_. Inr [12]) \<rparr>
   \<and> scaler \<lparr> random = (\<lambda>_. 1 / 2), now_gen = 0, now_req = 0, weekday = (\<lambda>_. 0), month = (\<lambda>_. 1),
          model = Some \<lparr> model_bool = Inr False, predict = (\<lambda>_. Inr [12]) \<rparr>,
          scaler = Some \<lparr> scaler_bool = Inr True, transform = (\<lambda>x. Inr x) \<rparr> \<rparr> =
      Some \<lparr> scaler_bool = Inr True, transform = (\<lambda>x. Inr x) \<rparr>
   \<and> 6 \<le> length (replicate 6 \<lparr> timestamp = 0, hour = ''00:00'', co = 1, c6h6 = 1, nox = 1, no2 = 1, temp = 1, rh = 1,
             score = 5 \<rparr>)
   \<and> predict_score
        \<lparr> random = (\<lambda>_. 1 / 2), now_gen = 0, now_req = 0, weekday = (\<lambda>_. 0), month = (\<lambda>_. 1),
          model = Some \<lparr> model_bool = Inr False, predict = (\<lambda>_. Inr [12]) \<rparr>,
          scaler = Some \<lparr> scaler_bool = Inr True, transform = (\<lambda>x. Inr x) \<rparr> \<rparr> 0
        (replicate 6 \<lparr> timestamp = 0, hour = ''00:00'', co = 1, c6h6 = 1, nox = 1, no2 = 1, temp = 1, rh = 1,
             score = 5 \<rparr>)
        \<lparr> timestamp = 0, hour = ''00:00'', co = 1, c6h6 = 1, nox = 1, no2 = 1, temp = 1, rh = 1,
             score = 5 \<rparr>
      = (Inr 5, [], 1)
   \<and> clamp 12 0 10 = 10
   \<and> fst (predict_score
        \<lparr> random = (\<lambda>_. 1 / 2), now_gen = 0, now_req = 0, weekday = (\<lambda>_. 0), month = (\<lambda>_. 1),
          model = Some \<lparr> model_bool = Inr False, predict = (\<lambda>_. Inr [12]) \<rparr>,
          scaler = Some \<lparr> scaler_bool = Inr True, transform = (\<lambda>x. Inr x) \<rparr> \<rparr> 0
        (replicate 6 \<lparr> timestamp = 0, hour = ''00:00'', co = 1, c6h6 = 1, nox = 1, no2 = 1, temp = 1, rh = 1,
             score = 5 \<rparr>)
        \<lparr> timestamp = 0, hour = ''00:00'', co = 1, c6h6 = 1, nox = 1, no2 = 1, temp = 1, rh = 1,
             score = 5 \<rparr>)
      \<noteq> Inr (clamp 12 0 10)"
proof -
  let ?r = "\<lparr> timestamp = 0, hour = ''00:00'', co = 1, c6h6 = 1, nox = 1, no2 = 1, temp = 1, rh = 1,
             score = 5 \<rparr>"
  let ?mf = "\<lparr> model_bool = Inr False, predict = (\<lambda>_. Inr [12]) \<rparr>"
  let ?s = "\<lparr> scaler_bool = Inr True, transform = (\<lambda>x. Inr x) \<rparr>"
  let ?ef = "\<lparr> random = (\<lambda>_. 1 / 2), now_gen = 0, now_req = 0, weekday = (\<lambda>_. 0), month = (\<lambda>_. 1),
          model = Some \<lparr> model_bool = Inr False, predict = (\<lambda>_. Inr [12]) \<rparr>,
          scaler = Some \<lparr> scaler_bool = Inr True, transform = (\<lambda>x. Inr x) \<rparr> \<rparr>"
  have "predict_score ?ef 0 (replicate 6 ?r) ?r = (Inr (jittered ?r (random ?ef 0)), [], 0 + 1)"
    by (rule predict_score_false [of ?ef ?mf ?s]) simp
  then have "predict_score ?ef 0 (replicate 6 ?r) ?r = (Inr 5, [], 1)"
    by (simp add: jittered_def uniform_def)
  then show ?thesis by (simp add: clamp_def)
qed

text \<open>
  Claim C5. The two status chains, the one applied to the current score and the one
  applied to the predicted score, map every score \<open>s\<close> alike: \<open>s \<ge> 6.5\<close> to Safe, green;
  \<open>4.0 \<le> s < 6.5\<close> to Moderate, yellow; \<open>s < 4.0\<close> to High Emissions, red. Exactly 6.5 is Safe,
  6.499 is Moderate, exactly 4.0 is Moderate and 3.999 is High Emissions. The response
  carries the status and colour of the current reading's score and of the predicted
  score.
\<close>

theorem determine_status_bands:
  "(6.5 \<le> s \<longrightarrow> status_color s = (''Safe'', ''green'') \<and> pred_status_color s = (''Safe'', ''green''))
   \<and> (4.0 \<le> s \<and> s < 6.5 \<longrightarrow>
        status_color s = (''Moderate'', ''yellow'') \<and> pred_status_color s = (''Moderate'', ''yellow''))
   \<and> (s < 4.0 \<longrightarrow>
        status_color s = (''High Emissions'', ''red'')
        \<and> pred_status_color s = (''High Emissions'', ''red''))
   \<and> status_color 6.5 = (''Safe'', ''green'') \<and> pred_status_color 6.5 = (''Safe'', ''green'')
   \<and> status_color 4.0 = (''Moderate'', ''yellow'') \<and> pred_status_color 4.0 = (''Moderate'', ''yellow'')
   \<and> status_color 6.499 = (''Moderate'', ''yellow'') \<and> status_color 3.999 = (''High Emissions'', ''red'')
   \<and> cur_status (current (success_payload hist cur p)) = fst (status_color (score cur))
   \<and> cur_color (current (success_payload hist cur p)) = snd (status_color (score cur))
   \<and> pred_status (prediction (success_payload hist cur p)) = fst (pred_status_color p)
   \<and> pred_color (prediction (success_payload hist cur p)) = snd (pred_status_color p)"
  by (simp add: status_color_def pred_status_color_def success_payload_def Let_def)

theorem determine_status_bands_witness:
  "(6.5::real) \<le> 7.2 \<and> pred_status_color 7.2 = (''Safe'', ''green'')
   \<and> (4.0::real) \<le> 5 \<and> (5::real) < 6.5 \<and> status_color 5 = (''Moderate'', ''yellow'')
   \<and> (1::real) < 4.0 \<and> status_color 1 = (''High Emissions'', ''red'')"
  using determine_status_bands [of "7.2"] determine_status_bands [of 5] determine_status_bands [of 1]
  by simp

subsection \<open>The response\<close>

lemma gen_loop_Inr:
  "gen_loop g c n (data, k) = Inr (d, k') \<Longrightarrow> length d = length data + n"
proof (induction n arbitrary: data k)
  case 0
  then show ?case by simp
next
  case (Suc n)
  from Suc.prems have "bind (hours_before c (int (Suc n))) (\<lambda>ts.
      gen_loop g c n (data @ [emit (iteration ts (g k) (g (k + 1)) (g (k + 2)))], k + 3))
    = Inr (d, k')"
    by simp
  from bind_eq_Inr [OF this] obtain ts where
    "gen_loop g c n (data @ [emit (iteration ts (g k) (g (k + 1)) (g (k + 2)))], k + 3) = Inr (d, k')"
    by blast
  from Suc.IH [OF this] show ?case by simp
qed

lemma generate_24_Inr:
  assumes "generate_historical_data g k c 24 = Inr (hist, k')"
  shows "length hist = 24"
  using gen_loop_Inr [of g c "nat 24" "[]" k hist k'] assms
  by (simp add: generate_historical_data_def)

lemma generate_24_ok:
  assumes "24 * 3600000000 \<le> c" "c < datetime_max"
  shows "\<exists>hist. generate_historical_data g k c 24 = Inr (hist, k + 72)"
  using generate_closed [of 24 c g k] assms by simp

lemma generate_24_raises:
  assumes "c < 24 * 3600000000"
  shows "generate_historical_data g k c 24 = Inl (OverflowError ''date value out of range'')"
proof -
  have "hours_before c (int 24) = Inl (OverflowError ''date value out of range'')"
    using assms by (simp add: hours_before_def timedelta_hours_def datetime_sub_def)
  then have "gen_loop g c 24 ([], k) = Inl (OverflowError ''date value out of range'')"
    by (intro gen_loop_raises) simp_all
  then show ?thesis by (simp add: generate_historical_data_def)
qed

lemma payload_historical_length:
  "length (historical (success_payload hist cur ps)) = length hist"
  by (simp add: success_payload_def Let_def)

lemma score_and_report_model:
  assumes "6 \<le> length hist" "model e = Some m" "model_bool m = Inr True"
    "scaler e = Some sc" "scaler_bool sc = Inr True"
  shows "score_and_report e k hist =
     (case fst (run_model m sc [spec_feature_vector e hist (last hist)]) of
        Inl err \<Rightarrow> Inl err
      | Inr ps \<Rightarrow> Inr (success_payload hist (last hist) ps),
      snd (run_model m sc [spec_feature_vector e hist (last hist)]))"
proof -
  have ne: "hist \<noteq> []" using assms(1) by auto
  show ?thesis
    using ne predict_score_model [OF assms, of k "last hist"]
    by (simp add: score_and_report_def py_last_def split: sum.splits)
qed

lemma score_and_report_raises:
  assumes "6 \<le> length hist" "predict_score e k hist (last hist) = (Inl err, calls, k')"
  shows "fst (score_and_report e k hist) = Inl err"
proof -
  have ne: "hist \<noteq> []" using assms(1) by auto
  show ?thesis
    using ne assms(2) by (simp add: score_and_report_def py_last_def)
qed

lemma score_and_report_Inr:
  assumes "fst (score_and_report e k hist) = Inr p"
  shows "\<exists>ps. p = success_payload hist (last hist) ps"
proof (cases "hist = []")
  case True
  then show ?thesis using assms by (simp add: score_and_report_def py_last_def)
next
  case False
  obtain r calls k' where pr: "predict_score e k hist (last hist) = (r, calls, k')"
    by (cases "predict_score e k hist (last hist)") auto
  show ?thesis
  proof (cases r)
    case (Inl err)
    then show ?thesis
      using assms False pr by (simp add: score_and_report_def py_last_def)
  next
    case (Inr ps)
    then have "p = success_payload hist (last hist) ps"
      using assms False pr by (simp add: score_and_report_def py_last_def)
    then show ?thesis by blast
  qed
qed


lemma refresh_try_Inr:
  assumes "fst (refresh_try e k) = Inr p"
  shows "length (historical p) = 24"
proof (cases "generate_historical_data (random e) k (now_gen e) 24")
  case (Inl err)
  then show ?thesis using assms by (simp add: refresh_try_def)
next
  case (Inr r)
  obtain hist k' where r: "r = (hist, k')" by (cases r)
  have g: "generate_historical_data (random e) k (now_gen e) 24 = Inr (hist, k')"
    using Inr r by simp
  have l: "length hist = 24" using g by (rule generate_24_Inr)
  have "fst (score_and_report e k' hist) = Inr p"
    using assms g by (simp add: refresh_try_def)
  then obtain ps where "p = success_payload hist (last hist) ps"
    using score_and_report_Inr by blast
  then show ?thesis
    by (simp add: payload_historical_length l)
qed

lemma refresh_try_generate_raises:
  assumes "now_gen e < 24 * 3600000000"
  shows "fst (refresh_try e k) = Inl (OverflowError ''date value out of range'')"
  using generate_24_raises [OF assms, of "random e" k] by (simp add: refresh_try_def)

lemma refresh_try_fallback:
  assumes "24 * 3600000000 \<le> now_gen e" "now_gen e < datetime_max"
    "model e = None
      \<or> (model e = Some m \<and> model_bool m = Inr False)
      \<or> (model e = Some m \<and> model_bool m = Inr True \<and> scaler e = None)
      \<or> (model e = Some m \<and> model_bool m = Inr True
           \<and> scaler e = Some sc \<and> scaler_bool sc = Inr False)"
  shows "\<exists>p. fst (refresh_try e k) = Inr p"
proof -
  obtain hist where g: "generate_historical_data (random e) k (now_gen e) 24 = Inr (hist, k + 72)"
    using generate_24_ok [OF assms(1,2)] by blast
  have "length hist = 24" using g by (rule generate_24_Inr)
  then have ne: "hist \<noteq> []" by auto
  have "length hist < 6
      \<or> model e = None
      \<or> (model e = Some m \<and> model_bool m = Inr False)
      \<or> (model e = Some m \<and> model_bool m = Inr True \<and> scaler e = None)
      \<or> (model e = Some m \<and> model_bool m = Inr True
           \<and> scaler e = Some sc \<and> scaler_bool sc = Inr False)"
    using assms(3) by blast
  then have "score_and_report e (k + 72) hist =
     (Inr (success_payload hist (last hist) (jittered (last hist) (random e (k + 72)))), [])"
    using ne by (intro score_and_report_fallback)
  then show ?thesis using g by (simp add: refresh_try_def)
qed

lemma refresh_try_model:
  assumes "generate_historical_data (random e) k (now_gen e) 24 = Inr (hist, k')"
    "model e = Some m" "model_bool m = Inr True" "scaler e = Some sc" "scaler_bool sc = Inr True"
  shows "fst (refresh_try e k) =
     (case fst (run_model m sc [spec_feature_vector e hist (last hist)]) of
        Inl err \<Rightarrow> Inl err
      | Inr ps \<Rightarrow> Inr (success_payload hist (last hist) ps))"
proof -
  have "length hist = 24" using assms(1) by (rule generate_24_Inr)
  then have "6 \<le> length hist" by simp
  then show ?thesis
    using score_and_report_model [of hist e m sc k'] assms by (simp add: refresh_try_def)
qed

lemma refresh_try_truth_raises:
  assumes "generate_historical_data (random e) k (now_gen e) 24 = Inr (hist, k')"
    "model e = Some m"
    "model_bool m = Inl err
       \<or> (model_bool m = Inr True \<and> scaler e = Some sc \<and> scaler_bool sc = Inl err)"
  shows "fst (refresh_try e k) = Inl err"
proof -
  have "length hist = 24" using assms(1) by (rule generate_24_Inr)
  then have l: "6 \<le> length hist" by simp
  have "predict_score e k' hist (last hist) = (Inl err, [], k')"
    using l assms(2,3) predict_score_model_raises [of hist e m err k' "last hist"]
      predict_score_scaler_raises [of hist e m sc err k' "last hist"]
    by blast
  then have "fst (score_and_report e k' hist) = Inl err"
    using l by (intro score_and_report_raises)
  then show ?thesis using assms(1) by (simp add: refresh_try_def)
qed

text \<open>
  Claim C9. A request ends in exactly one of two ways. If the body of the \<open>try\<close> raises an
  exception, the response is the failure body carrying \<open>str\<close> of the exception, with status
  500. This is what happens when the generation raises (the current time is less than 24
  hours after the first instant of the calendar), when the truth value of an artifact
  raises, and when both artifacts are true and the transform, the prediction or the read
  of its element 0 raises. If the body raises nothing, the response is the success body
  with the current block, the prediction block and a historical list of exactly 24
  points, with status 200. This is the case whenever the 24 hours before the current time
  are in the calendar and the test of line 159 is false: the model is \<open>None\<close> or false,
  or the model is true and the scaler is \<open>None\<close> or false.
\<close>

theorem refresh_data_response:
  "(fst (refresh_try e k) = Inl err \<longrightarrow> refresh_data e k = (Failure (str_of_error err), 500))
   \<and> (fst (refresh_try e k) = Inr p \<longrightarrow>
        refresh_data e k = (Success p, 200) \<and> length (historical p) = 24)
   \<and> ((\<exists>q. refresh_data e k = (Success q, 200) \<and> fst (refresh_try e k) = Inr q
             \<and> length (historical q) = 24)
        \<or> (\<exists>x. refresh_data e k = (Failure (str_of_error x), 500) \<and> fst (refresh_try e k) = Inl x))
   \<and> (now_gen e < 24 * 3600000000 \<longrightarrow>
        refresh_data e k = (Failure ''date value out of range'', 500))
   \<and> (24 * 3600000000 \<le> now_gen e \<and> now_gen e < datetime_max
        \<and> (model e = None
      \<or> (model e = Some m \<and> model_bool m = Inr False)
      \<or> (model e = Some m \<and> model_bool m = Inr True \<and> scaler e = None)
      \<or> (model e = Some m \<and> model_bool m = Inr True
           \<and> scaler e = Some sc \<and> scaler_bool sc = Inr False))
        \<longrightarrow> (\<exists>q. refresh_data e k = (Success q, 200)))
   \<and> (generate_historical_data (random e) k (now_gen e) 24 = Inr (hist, k')
        \<and> model e = Some m \<and> model_bool m = Inr True
        \<and> scaler e = Some sc \<and> scaler_bool sc = Inr True
        \<and> fst (run_model m sc [spec_feature_vector e hist (last hist)]) = Inl err
        \<longrightarrow> refresh_data e k = (Failure (str_of_error err), 500))
   \<and> (generate_historical_data (random e) k (now_gen e) 24 = Inr (hist, k')
        \<and> model e = Some m
        \<and> (model_bool m = Inl err
            \<or> (model_bool m = Inr True \<and> scaler e = Some sc \<and> scaler_bool sc = Inl err))
        \<longrightarrow> refresh_data e k = (Failure (str_of_error err), 500))"
proof -
  have a: "refresh_data e k = (Failure (str_of_error x), 500)" if "fst (refresh_try e k) = Inl x" for x
    using that by (simp add: refresh_data_def)
  have b: "refresh_data e k = (Success q, 200) \<and> length (historical q) = 24"
    if "fst (refresh_try e k) = Inr q" for q
    using that refresh_try_Inr [OF that] by (simp add: refresh_data_def)
  have c: "(\<exists>q. refresh_data e k = (Success q, 200) \<and> fst (refresh_try e k) = Inr q
             \<and> length (historical q) = 24)
        \<or> (\<exists>x. refresh_data e k = (Failure (str_of_error x), 500) \<and> fst (refresh_try e k) = Inl x)"
  proof (cases "fst (refresh_try e k)")
    case (Inl x)
    then show ?thesis using a by blast
  next
    case (Inr q)
    then show ?thesis using b by blast
  qed
  have g: "refresh_data e k = (Failure ''date value out of range'', 500)"
    if "now_gen e < 24 * 3600000000"
    using a [OF refresh_try_generate_raises [OF that, of k]] by simp
  have d: "\<exists>q. refresh_data e k = (Success q, 200)"
    if "24 * 3600000000 \<le> now_gen e" "now_gen e < datetime_max"
      "model e = None
      \<or> (model e = Some m \<and> model_bool m = Inr False)
      \<or> (model e = Some m \<and> model_bool m = Inr True \<and> scaler e = None)
      \<or> (model e = Some m \<and> model_bool m = Inr True
           \<and> scaler e = Some sc \<and> scaler_bool sc = Inr False)"
    using refresh_try_fallback [OF that, of k] b by blast
  have f: "refresh_data e k = (Failure (str_of_error err), 500)"
    if "generate_historical_data (random e) k (now_gen e) 24 = Inr (hist, k')"
      "model e = Some m" "model_bool m = Inr True" "scaler e = Some sc" "scaler_bool sc = Inr True"
      "fst (run_model m sc [spec_feature_vector e hist (last hist)]) = Inl err"
  proof -
    have "fst (refresh_try e k) = Inl err"
      using refresh_try_model [OF that(1,2,3,4,5)] that(6) by simp
    then show ?thesis by (rule a)
  qed
  have h: "refresh_data e k = (Failure (str_of_error err), 500)"
    if "generate_historical_data (random e) k (now_gen e) 24 = Inr (hist, k')"
      "model e = Some m"
      "model_bool m = Inl err
            \<or> (model_bool m = Inr True \<and> scaler e = Some sc \<and> scaler_bool sc = Inl err)"
  proof -
    have "fst (refresh_try e k) = Inl err"
      using that by (rule refresh_try_truth_raises)
    then show ?thesis by (rule a)
  qed
  show ?thesis
    apply (intro conjI impI)
    subgoal using a by blast
    subgoal using b by blast
    subgoal using b by blast
    subgoal using c .
    subgoal using g by blast
    subgoal using d by blast
    subgoal using f by blast
    subgoal using h by blast
    done
qed

theorem refresh_data_response_witness:
  "(\<exists>q. refresh_data
          \<lparr> random = (\<lambda>_. 1 / 2), now_gen = 24 * 3600000000, now_req = 0, weekday = (\<lambda>_. 0),
            month = (\<lambda>_. 1), model = None, scaler = None \<rparr> 0 = (Success q, 200))
   \<and> refresh_data
        \<lparr> random = (\<lambda>_. 1 / 2), now_gen = 24 * 3600000000, now_req = 0, weekday = (\<lambda>_. 0), month = (\<lambda>_. 1),
          model = Some \<lparr> model_bool = Inr True, predict = (\<lambda>_. Inr [1]) \<rparr>,
          scaler = Some \<lparr> scaler_bool = Inr True, transform = (\<lambda>_. Inl (ArtifactError ''boom'')) \<rparr> \<rparr> 0
      = (Failure ''boom'', 500)
   \<and> refresh_data
        \<lparr> random = (\<lambda>_. 1 / 2), now_gen = 24 * 3600000000, now_req = 0, weekday = (\<lambda>_. 0), month = (\<lambda>_. 1),
          model = Some \<lparr> model_bool = Inl (ArtifactError ''ambiguous''), predict = (\<lambda>_. Inr [1]) \<rparr>,
          scaler = Some \<lparr> scaler_bool = Inr True, transform = (\<lambda>_. Inl (ArtifactError ''boom'')) \<rparr> \<rparr> 0
      = (Failure ''ambiguous'', 500)
   \<and> refresh_data
        \<lparr> random = (\<lambda>_. 1 / 2), now_gen = 23 * 3600000000, now_req = 0, weekday = (\<lambda>_. 0),
          month = (\<lambda>_. 1), model = None, scaler = None \<rparr> 0
      = (Failure ''date value out of range'', 500)"
proof -
  let ?e0 = "\<lparr> random = (\<lambda>_. 1 / 2), now_gen = 24 * 3600000000, now_req = 0, weekday = (\<lambda>_. 0),
            month = (\<lambda>_. 1), model = None, scaler = None \<rparr>"
  let ?mb = "\<lparr> model_bool = Inr True, predict = (\<lambda>_. Inr [1]) \<rparr>"
  let ?sb = "\<lparr> scaler_bool = Inr True, transform = (\<lambda>_. Inl (ArtifactError ''boom'')) \<rparr>"
  let ?ma = "\<lparr> model_bool = Inl (ArtifactError ''ambiguous''), predict = (\<lambda>_. Inr [1]) \<rparr>"
  let ?e1 = "\<lparr> random = (\<lambda>_. 1 / 2), now_gen = 24 * 3600000000, now_req = 0, weekday = (\<lambda>_. 0), month = (\<lambda>_. 1),
          model = Some \<lparr> model_bool = Inr True, predict = (\<lambda>_. Inr [1]) \<rparr>,
          scaler = Some \<lparr> scaler_bool = Inr True, transform = (\<lambda>_. Inl (ArtifactError ''boom'')) \<rparr> \<rparr>"
  let ?e2 = "\<lparr> random = (\<lambda>_. 1 / 2), now_gen = 24 * 3600000000, now_req = 0, weekday = (\<lambda>_. 0), month = (\<lambda>_. 1),
          model = Some \<lparr> model_bool = Inl (ArtifactError ''ambiguous''), predict = (\<lambda>_. Inr [1]) \<rparr>,
          scaler = Some \<lparr> scaler_bool = Inr True, transform = (\<lambda>_. Inl (ArtifactError ''boom'')) \<rparr> \<rparr>"
  let ?e3 = "\<lparr> random = (\<lambda>_. 1 / 2), now_gen = 23 * 3600000000, now_req = 0, weekday = (\<lambda>_. 0),
          month = (\<lambda>_. 1), model = None, scaler = None \<rparr>"
  obtain hist where g: "generate_historical_data (\<lambda>_. 1 / 2) 0 (24 * 3600000000) 24 = Inr (hist, 0 + 72)"
    using generate_24_ok [of "24 * 3600000000" "\<lambda>_. 1 / 2" 0] by (auto simp add: datetime_max_def)
  have x: "\<exists>q. refresh_data ?e0 0 = (Success q, 200)"
    using refresh_data_response [of ?e0 0] by (simp add: datetime_max_def)
  have y: "refresh_data ?e1 0 = (Failure ''boom'', 500)"
    using refresh_data_response [of ?e1 0 "ArtifactError ''boom''" _ ?mb ?sb hist 72] g
    by (simp add: run_model_def)
  have z: "refresh_data ?e2 0 = (Failure ''ambiguous'', 500)"
    using refresh_data_response [of ?e2 0 "ArtifactError ''ambiguous''" _ ?ma ?sb hist 72] g
    by simp
  have w: "refresh_data ?e3 0 = (Failure ''date value out of range'', 500)"
    using refresh_data_response [of ?e3 0] by simp
  show ?thesis using x y z w by simp
qed

end
